theory Spec2Isabelle
  imports Main "HOL-Library.Word" "HOL-Library.Signed_Division"
begin

section \<open>Errors\<close>

text \<open>
  Every fatal \<open>LOG(FATAL)\<close>, failed \<open>CHECK\<close>, thrown exception and undefined read of the
  C++ sources is a value of this type; a function that can fail returns \<open>error + 'a\<close>.
\<close>

datatype error =
    OverflowError          \<comment> \<open>thrown by the date-in-days overflow validator\<close>
  | CheckFailed            \<comment> \<open>a failed \<open>CHECK\<close>/\<open>CHECK_GE\<close> (fatal)\<close>
  | UnsupportedBufferType  \<comment> \<open>\<open>LOG(FATAL) << "Unsupported Buffer type"\<close>\<close>
  | OutOfRange             \<comment> \<open>a read past the end of an array (undefined in C++)\<close>
  | DivisionByZero         \<comment> \<open>integer division by zero (undefined in C++)\<close>
  | NullPointer            \<comment> \<open>use of a null \<open>FileInfo*\<close> (undefined in C++)\<close>
  | StorageExhausted       \<comment> \<open>no free page is left (fatal)\<close>

section \<open>The date-in-days encoder (DataMgr/DateDaysEncoder.h)\<close>

text \<open>
  \<open>DateDaysEncoder<T, V>\<close> at \<open>T = int64_t\<close> (seconds) and \<open>V = int32_t\<close> (days).
  Both are two's complement machine integers: comparisons are the signed ones.
\<close>

type_synonym T = "64 word"
type_synonym V = "32 word"

definition T_max :: T where "T_max = 0x7FFFFFFFFFFFFFFF"
definition T_min :: T where "T_min = 0x8000000000000000"
definition V_max :: V where "V_max = 0x7FFFFFFF"
definition V_min :: V where "V_min = 0x80000000"

text \<open>\<open>std::max(a, b)\<close> is \<open>(a < b) ? b : a\<close> and \<open>std::min(a, b)\<close> is \<open>(b < a) ? b : a\<close>.\<close>

definition std_max :: "T \<Rightarrow> T \<Rightarrow> T" where
  "std_max a b = (if word_sless a b then b else a)"

definition std_min :: "T \<Rightarrow> T \<Rightarrow> T" where
  "std_min a b = (if word_sless b a then b else a)"

definition kSecsPerDay :: int where "kSecsPerDay = 86400"

text \<open>
  Modelled from the spec: \<open>DateConverters::get_epoch_days_from_seconds\<close> (Shared/DateConverter.h
  is not among the sources). The spec: non-null inputs are "converted by integer flooring
  toward negative infinity (\<open>epoch_days = floor(epoch_seconds / 86400)\<close>)". HOL's \<open>div\<close> on
  \<open>int\<close> is that floor.
\<close>

definition get_epoch_days_from_seconds :: "T \<Rightarrow> T" where
  "get_epoch_days_from_seconds seconds = word_of_int (sint seconds div kSecsPerDay)"

text \<open>
  Modelled from the spec: \<open>DateConverters::get_epoch_seconds_from_days\<close> (same missing header).
  The spec: "days re-expanded back to seconds at midnight". The product is a 64-bit one.
\<close>

definition get_epoch_seconds_from_days :: "T \<Rightarrow> T" where
  "get_epoch_seconds_from_days days = days * word_of_int kSecsPerDay"

text \<open>
  Modelled from the spec: \<open>date_days_overflow_validator_.validate\<close> (a member of the base class
  in Encoder.h, not among the sources). The spec: non-null inputs "are validated against the
  representable day range", and \<open>V::MIN\<close> "is never produced from a non-null input (overflow
  validation rejects inputs that would collide)". So a value passes iff its day count lies
  strictly above \<open>V::MIN\<close> and at most \<open>V::MAX\<close>; otherwise \<open>OverflowError\<close> is thrown.
\<close>

definition validate :: "T \<Rightarrow> bool" where
  "validate seconds \<longleftrightarrow>
     sint V_min < sint seconds div kSecsPerDay \<and> sint seconds div kSecsPerDay \<le> sint V_max"

record DateDaysEncoder =
  num_elems :: nat
  dataMin :: T
  dataMax :: T
  has_nulls :: bool

text \<open>The constructor: \<open>dataMin(numeric_limits<T>::max())\<close>, \<open>dataMax(numeric_limits<T>::min())\<close>.\<close>

definition new_DateDaysEncoder :: DateDaysEncoder where
  "new_DateDaysEncoder =
     \<lparr>num_elems = 0, dataMin = T_max, dataMax = T_min, has_nulls = False\<rparr>"

text \<open>
  \<open>encodeDataAndUpdateStats\<close>. The null test compares the \<open>T\<close> input with
  \<open>numeric_limits<V>::min()\<close>, which the comparison widens to \<open>T\<close> (\<open>scast\<close>);
  \<open>static_cast<V>\<close> and the assignment of the 64-bit day count to \<open>V encoded_data\<close>
  truncate (\<open>ucast\<close>); \<open>get_epoch_seconds_from_days(encoded_data)\<close> widens the stored
  value again.
\<close>

definition encodeDataAndUpdateStats :: "DateDaysEncoder \<Rightarrow> T \<Rightarrow> error + (V \<times> DateDaysEncoder)" where
  "encodeDataAndUpdateStats enc unencoded_data =
     (if unencoded_data = scast V_min then
        Inr (ucast unencoded_data, enc\<lparr>has_nulls := True\<rparr>)
      else if \<not> validate unencoded_data then Inl OverflowError
      else
        let encoded_data = (ucast (get_epoch_days_from_seconds unencoded_data) :: V);
            data = get_epoch_seconds_from_days (scast encoded_data);
            enc1 = enc\<lparr>dataMax := std_max (dataMax enc) data\<rparr>;
            enc2 = enc1\<lparr>dataMin := std_min (dataMin enc1) data\<rparr>
        in Inr (encoded_data, enc2))"

text \<open>
  The loop of \<open>appendData\<close>: element \<open>i\<close> is read at \<open>ri = replicating ? 0 : i\<close>; a read past
  the source array is undefined in C++ and an error here. An exception of the validator
  leaves the loop at once.
\<close>

fun encode_loop ::
  "DateDaysEncoder \<Rightarrow> T list \<Rightarrow> bool \<Rightarrow> nat \<Rightarrow> nat \<Rightarrow> error + (V list \<times> DateDaysEncoder)" where
  "encode_loop enc src replicating i 0 = Inr ([], enc)"
| "encode_loop enc src replicating i (Suc n) =
     (let ri = (if replicating then 0 else i) in
      if ri \<ge> length src then Inl OutOfRange
      else case encodeDataAndUpdateStats enc (src ! ri) of
             Inl e \<Rightarrow> Inl e
           | Inr (v, enc') \<Rightarrow>
               (case encode_loop enc' src replicating (Suc i) n of
                  Inl e \<Rightarrow> Inl e
                | Inr (vs, enc'') \<Rightarrow> Inr (v # vs, enc'')))"

text \<open>
  The call that \<open>appendData\<close> makes on its buffer (\<open>AbstractBuffer\<close> is virtual and not among
  the sources): the encoded values and, for \<open>write\<close>, the offset handed over.
\<close>

datatype buffer_call = BufAppend "V list" | BufWrite "V list" nat

record ChunkMetadata =
  numElements :: nat
  stats_min :: T
  stats_max :: T
  stats_has_nulls :: bool

definition getMetadata :: "DateDaysEncoder \<Rightarrow> ChunkMetadata" where
  "getMetadata enc =
     \<lparr>numElements = num_elems enc, stats_min = dataMin enc, stats_max = dataMax enc,
      stats_has_nulls = has_nulls enc\<rparr>"

text \<open>
  \<open>appendData(src_data, num_elems_to_append, ti, replicating, offset)\<close>; \<open>is_date_in_days\<close>
  is \<open>ti.is_date_in_days()\<close>. The result holds the updated encoder, the buffer call and the
  metadata returned.
\<close>

definition appendData ::
  "DateDaysEncoder \<Rightarrow> T list \<Rightarrow> nat \<Rightarrow> bool \<Rightarrow> bool \<Rightarrow> int \<Rightarrow>
   error + (DateDaysEncoder \<times> buffer_call \<times> ChunkMetadata)" where
  "appendData enc src_data num_elems_to_append is_date_in_days replicating offset =
     (if \<not> is_date_in_days then Inl CheckFailed
      else case encode_loop enc src_data replicating 0 num_elems_to_append of
        Inl e \<Rightarrow> Inl e
      | Inr (encoded_data, enc') \<Rightarrow>
          if offset = -1 then
            (let enc'' = enc'\<lparr>num_elems := num_elems enc' + num_elems_to_append\<rparr>
             in Inr (enc'', BufAppend encoded_data, getMetadata enc''))
          else if replicating then Inl CheckFailed
          else if offset < 0 then Inl CheckFailed
          else
            (let enc'' = enc'\<lparr>num_elems := nat offset + num_elems_to_append\<rparr>
             in Inr (enc'', BufWrite encoded_data (nat offset), getMetadata enc'')))"

section \<open>Page files and the file manager\<close>

text \<open>
  \<open>size_t\<close> values (sizes, offsets, page numbers, counts) are natural numbers; the model
  is of buffers whose byte counts stay below \<open>2 ^ 64\<close>, where no sum of them wraps.
  A byte is an \<open>8 word\<close>. Epochs and page ids are C++ \<open>int\<close>s and are integers here;
  a page header stores them as 32-bit words.
\<close>

type_synonym byte = "8 word"

text \<open>\<open>struct Page { int fileId; size_t pageNum; }\<close>\<close>

record Page =
  fileId :: int
  pageNum :: nat

text \<open>
  Modelled from the spec: \<open>FileInfo\<close> (DataMgr/FileMgr/FileInfo.h is not among the sources).
  The spec: "A fixed-size page file. Tracks free page numbers; exposes
  \<open>read(offset, n, dst)\<close> and \<open>write(offset, n, src)\<close>", each returning the number of
  bytes moved. The file holds \<open>fi_numPages\<close> pages of \<open>fi_pageSize\<close> bytes; a transfer that
  would pass the end of the file is cut short there.
\<close>

record FileInfo =
  fi_pageSize :: nat
  fi_numPages :: nat
  freePages :: "nat list"
  fi_data :: "nat \<Rightarrow> byte"

definition FileInfo_size :: "FileInfo \<Rightarrow> nat" where
  "FileInfo_size fi = fi_numPages fi * fi_pageSize fi"

definition FileInfo_read :: "FileInfo \<Rightarrow> nat \<Rightarrow> nat \<Rightarrow> byte list" where
  "FileInfo_read fi offset n =
     map (fi_data fi) [offset ..< offset + min n (FileInfo_size fi - offset)]"

definition FileInfo_write :: "FileInfo \<Rightarrow> nat \<Rightarrow> nat \<Rightarrow> byte list \<Rightarrow> FileInfo \<times> nat" where
  "FileInfo_write fi offset n src =
     (let k = min n (FileInfo_size fi - offset) in
      (fi\<lparr>fi_data := (\<lambda>i. if offset \<le> i \<and> i < offset + k then src ! (i - offset)
                          else fi_data fi i)\<rparr>, k))"

text \<open>
  Modelled from the spec: \<open>FileMgr\<close> (DataMgr/FileMgr/FileMgr.h is not among the sources).
  The spec: it "owns a set of FileInfos keyed by file id; allocates free pages of a given
  page size; tracks the current epoch", and has "the configured reader-thread count". The
  files present are the configured backing storage: \<open>requestFreePage\<close> hands out the first
  free page of the first file of the requested page size, and "exhausting the configured
  backing storage is fatal (\<open>StorageExhausted\<close>)". A file id is an index into \<open>files\<close>.
\<close>

record FileMgr =
  fm_epoch :: int
  numReaderThreads :: nat
  files :: "FileInfo list"

definition getFileInfoForFileId :: "FileMgr \<Rightarrow> int \<Rightarrow> FileInfo option" where
  "getFileInfoForFileId fm fid =
     (if 0 \<le> fid \<and> nat fid < length (files fm) then Some (files fm ! nat fid) else None)"

definition update_file :: "FileMgr \<Rightarrow> int \<Rightarrow> FileInfo \<Rightarrow> FileMgr" where
  "update_file fm fid fi = fm\<lparr>files := (files fm)[nat fid := fi]\<rparr>"

fun find_file :: "FileInfo list \<Rightarrow> nat \<Rightarrow> nat \<Rightarrow> nat option" where
  "find_file [] psize i = None"
| "find_file (fi # fis) psize i =
     (if fi_pageSize fi = psize \<and> freePages fi \<noteq> [] then Some i
      else find_file fis psize (Suc i))"

definition requestFreePage :: "FileMgr \<Rightarrow> nat \<Rightarrow> bool \<Rightarrow> error + (FileMgr \<times> Page)" where
  "requestFreePage fm psize isMetadata =
     (case find_file (files fm) psize 0 of
        None \<Rightarrow> Inl StorageExhausted
      | Some i \<Rightarrow>
          let fi = files fm ! i in
          Inr (fm\<lparr>files := (files fm)[i := fi\<lparr>freePages := tl (freePages fi)\<rparr>]\<rparr>,
               \<lparr>fileId = int i, pageNum = hd (freePages fi)\<rparr>))"

section \<open>The chunk buffer (DataMgr/FileMgr/FileBuffer.cpp)\<close>

text \<open>Sequencing of steps that can fail: the first error ends the operation.\<close>

fun bind_err :: "error + 'a \<Rightarrow> ('a \<Rightarrow> error + 'b) \<Rightarrow> error + 'b" where
  "bind_err (Inl e) f = Inl e"
| "bind_err (Inr x) f = f x"

text \<open>
  \<open>MultiPage\<close>: the versions of one logical page, as the two parallel sequences the code
  keeps. \<open>current()\<close> is \<open>pageVersions.back()\<close>.
\<close>

record MultiPage =
  mp_pageSize :: nat
  epochs :: "int list"
  pageVersions :: "Page list"

definition current :: "MultiPage \<Rightarrow> Page" where
  "current mp = last (pageVersions mp)"

datatype MemoryLevel = DISK_LEVEL | CPU_LEVEL | GPU_LEVEL

definition METADATA_PAGE_SIZE :: nat where "METADATA_PAGE_SIZE = 4096"

definition headerBufferOffset :: nat where "headerBufferOffset = 32"

text \<open>
  The fields of \<open>FileBuffer\<close> that the operations below use (\<open>pageSize_\<close>, \<open>size_\<close>, ... in
  the source; the flags are those of \<open>AbstractBuffer\<close>). The file manager \<open>fm_\<close> is passed
  beside the buffer and returned updated.
\<close>

record FileBuffer =
  pageSize :: nat
  pageDataSize :: nat
  reservedHeaderSize :: nat
  chunkKey :: "32 word list"
  multiPages :: "MultiPage list"
  metadataPages :: MultiPage
  buf_size :: nat
  is_dirty :: bool
  is_appended :: bool
  is_updated :: bool

text \<open>\<open>calcHeaderBuffer\<close>: \<open>(chunkKey_.size() + 3) * sizeof(int)\<close>, padded to a multiple of 32.\<close>

definition calcHeaderBuffer :: "32 word list \<Rightarrow> nat" where
  "calcHeaderBuffer key =
     (let r = (length key + 3) * 4; headerMod = r mod headerBufferOffset in
      if headerMod > 0 then r + (headerBufferOffset - headerMod) else r)"

text \<open>
  The constructor of a new buffer. \<open>pageDataSize_ = pageSize_ - reservedHeaderSize_\<close> is an
  unsigned subtraction: it wraps when the page is smaller than its header.
\<close>

definition new_FileBuffer :: "nat \<Rightarrow> 32 word list \<Rightarrow> FileBuffer" where
  "new_FileBuffer psize key =
     \<lparr>pageSize = psize,
      pageDataSize = (psize + 2 ^ 64 - calcHeaderBuffer key) mod 2 ^ 64,
      reservedHeaderSize = calcHeaderBuffer key,
      chunkKey = key,
      multiPages = [],
      metadataPages = \<lparr>mp_pageSize = METADATA_PAGE_SIZE, epochs = [], pageVersions = []\<rparr>,
      buf_size = 0,
      is_dirty = False, is_appended = False, is_updated = False\<rparr>"

text \<open>
  \<open>addNewMultiPage\<close>: a free page of the buffer's page size becomes the only version of a
  new logical page at the end of \<open>multiPages_\<close>.
\<close>

definition addNewMultiPage ::
  "FileMgr \<Rightarrow> FileBuffer \<Rightarrow> int \<Rightarrow> error + (FileMgr \<times> FileBuffer \<times> Page)" where
  "addNewMultiPage fm fb epoch =
     bind_err (requestFreePage fm (pageSize fb) False) (\<lambda>(fm', page).
       Inr (fm',
            fb\<lparr>multiPages := multiPages fb @
                  [\<lparr>mp_pageSize = pageSize fb, epochs = [epoch], pageVersions = [page]\<rparr>]\<rparr>,
            page))"

text \<open>
  \<open>writeHeader\<close>. The header is \<open>vector<int>\<close> of \<open>chunkKey_.size() + 3\<close> entries: the header
  size without its first entry, the chunk key, the page id, the epoch; its bytes go to
  the start of the page, which is at \<open>page.pageNum * pageSize\<close> with
  \<open>pageSize = writeMetadata ? METADATA_PAGE_SIZE : pageSize_\<close>. The bytes of an \<open>int\<close> are
  little-endian. The count returned by \<open>fileInfo->write\<close> is not looked at.
\<close>

definition le32 :: "32 word \<Rightarrow> byte list" where
  "le32 w = [ucast w, ucast (drop_bit 8 w), ucast (drop_bit 16 w), ucast (drop_bit 24 w)]"

definition header_ints :: "FileBuffer \<Rightarrow> int \<Rightarrow> int \<Rightarrow> 32 word list" where
  "header_ints fb pageId epoch =
     word_of_int (int ((length (chunkKey fb) + 3 - 1) * 4)) # chunkKey fb @
       [word_of_int pageId, word_of_int epoch]"

definition writeHeader ::
  "FileMgr \<Rightarrow> FileBuffer \<Rightarrow> Page \<Rightarrow> int \<Rightarrow> int \<Rightarrow> bool \<Rightarrow> error + FileMgr" where
  "writeHeader fm fb page pageId epoch writeMetadata =
     (case getFileInfoForFileId fm (fileId page) of
        None \<Rightarrow> Inl NullPointer
      | Some fileInfo \<Rightarrow>
          let psize = (if writeMetadata then METADATA_PAGE_SIZE else pageSize fb);
              header = header_ints fb pageId epoch
          in Inr (update_file fm (fileId page)
                    (fst (FileInfo_write fileInfo (pageNum page * psize)
                            ((length (chunkKey fb) + 3) * 4) (concat (map le32 header))))))"

text \<open>\<open>reserve\<close>: pages \<open>numCurrentPages ..< numPagesRequested\<close> are added at the current epoch.\<close>

fun reserve_loop :: "int \<Rightarrow> nat list \<Rightarrow> FileMgr \<times> FileBuffer \<Rightarrow> error + (FileMgr \<times> FileBuffer)" where
  "reserve_loop epoch [] st = Inr st"
| "reserve_loop epoch (pn # pns) (fm, fb) =
     bind_err (addNewMultiPage fm fb epoch) (\<lambda>(fm1, fb1, page).
     bind_err (writeHeader fm1 fb1 page (int pn) epoch False) (\<lambda>fm2.
     reserve_loop epoch pns (fm2, fb1)))"

definition FileBuffer_reserve :: "FileMgr \<Rightarrow> FileBuffer \<Rightarrow> nat \<Rightarrow> error + (FileMgr \<times> FileBuffer)" where
  "FileBuffer_reserve fm fb numBytes =
     (if pageSize fb = 0 then Inl DivisionByZero
      else
        let numPagesRequested = (numBytes + pageSize fb - 1) div pageSize fb;
            numCurrentPages = length (multiPages fb)
        in reserve_loop (fm_epoch fm) [numCurrentPages ..< numPagesRequested] (fm, fb))"

text \<open>
  \<open>copyPage(srcPage, destPage, numBytes, offset)\<close>: \<open>numBytes\<close> bytes of the payload, from
  \<open>offset\<close> on, go from the one page to the other through a temporary buffer.
\<close>

definition copyPage ::
  "FileMgr \<Rightarrow> FileBuffer \<Rightarrow> Page \<Rightarrow> Page \<Rightarrow> nat \<Rightarrow> nat \<Rightarrow> error + FileMgr" where
  "copyPage fm fb srcPage destPage numBytes offset =
     (if \<not> (offset + numBytes < pageDataSize fb) then Inl CheckFailed
      else case getFileInfoForFileId fm (fileId srcPage) of
        None \<Rightarrow> Inl NullPointer
      | Some srcFileInfo \<Rightarrow>
         (case getFileInfoForFileId fm (fileId destPage) of
            None \<Rightarrow> Inl NullPointer
          | Some destFileInfo \<Rightarrow>
              let buffer = FileInfo_read srcFileInfo
                     (pageNum srcPage * pageSize fb + offset + reservedHeaderSize fb) numBytes
              in if length buffer \<noteq> numBytes then Inl CheckFailed
                 else
                   let (destFileInfo', bytesWritten) = FileInfo_write destFileInfo
                          (pageNum destPage * pageSize fb + offset + reservedHeaderSize fb)
                          numBytes buffer
                   in if bytesWritten \<noteq> numBytes then Inl CheckFailed
                      else Inr (update_file fm (fileId destPage) destFileInfo')))"

text \<open>
  The payload write that ends every iteration of the loops of \<open>append\<close> and \<open>write\<close>:
  on the first page from \<open>startPageOffset\<close> on, on a later page from the start of the
  payload. It returns the file manager and \<open>bytesWritten\<close>.
\<close>

definition write_payload ::
  "FileMgr \<Rightarrow> FileBuffer \<Rightarrow> Page \<Rightarrow> bool \<Rightarrow> nat \<Rightarrow> nat \<Rightarrow> byte list \<Rightarrow> error + (FileMgr \<times> nat)" where
  "write_payload fm fb page onStartPage startPageOffset bytesLeft curPtr =
     (if fileId page < 0 then Inl CheckFailed
      else case getFileInfoForFileId fm (fileId page) of
        None \<Rightarrow> Inl NullPointer
      | Some fileInfo \<Rightarrow>
          let (fileInfo', bytesWritten) =
                (if onStartPage then
                   FileInfo_write fileInfo
                     (pageNum page * pageSize fb + startPageOffset + reservedHeaderSize fb)
                     (min (pageDataSize fb - startPageOffset) bytesLeft) curPtr
                 else
                   FileInfo_write fileInfo
                     (pageNum page * pageSize fb + reservedHeaderSize fb)
                     (min (pageDataSize fb) bytesLeft) curPtr)
          in Inr (update_file fm (fileId page) fileInfo', bytesWritten))"

text \<open>
  \<open>append\<close>. The loop state is the file manager, the buffer, the source bytes from
  \<open>curPtr\<close> on and \<open>bytesLeft\<close>; \<open>pn\<close> is the loop's \<open>pageNum\<close>.
\<close>

definition append_page ::
  "nat \<Rightarrow> nat \<Rightarrow> nat \<Rightarrow> int \<Rightarrow> nat \<Rightarrow> FileMgr \<times> FileBuffer \<times> byte list \<times> nat \<Rightarrow>
   error + (FileMgr \<times> FileBuffer \<times> byte list \<times> nat)" where
  "append_page startPage startPageOffset initialNumPages epoch pn st =
     (case st of (fm, fb, curPtr, bytesLeft) \<Rightarrow>
        bind_err
          (if pn \<ge> initialNumPages then
             bind_err (addNewMultiPage fm fb epoch) (\<lambda>(fm1, fb1, page).
             bind_err (writeHeader fm1 fb1 page (int pn) epoch False) (\<lambda>fm2.
             Inr (fm2, fb1, page)))
           else if pn \<ge> length (multiPages fb) \<or> pageVersions (multiPages fb ! pn) = []
             then Inl OutOfRange
           else Inr (fm, fb, current (multiPages fb ! pn)))
          (\<lambda>(fm', fb', page).
             bind_err (write_payload fm' fb' page (pn = startPage) startPageOffset bytesLeft curPtr)
               (\<lambda>(fm'', bytesWritten).
                  Inr (fm'', fb', drop bytesWritten curPtr, bytesLeft - bytesWritten))))"

fun append_loop ::
  "nat \<Rightarrow> nat \<Rightarrow> nat \<Rightarrow> int \<Rightarrow> nat list \<Rightarrow> FileMgr \<times> FileBuffer \<times> byte list \<times> nat \<Rightarrow>
   error + (FileMgr \<times> FileBuffer \<times> byte list \<times> nat)" where
  "append_loop startPage startPageOffset initialNumPages epoch [] st = Inr st"
| "append_loop startPage startPageOffset initialNumPages epoch (pn # pns) st =
     bind_err (append_page startPage startPageOffset initialNumPages epoch pn st)
       (append_loop startPage startPageOffset initialNumPages epoch pns)"

definition FileBuffer_append ::
  "FileMgr \<Rightarrow> FileBuffer \<Rightarrow> byte list \<Rightarrow> nat \<Rightarrow> error + (FileMgr \<times> FileBuffer)" where
  "FileBuffer_append fm fb src numBytes =
     (if numBytes > length src then Inl OutOfRange
      else if pageDataSize fb = 0 then Inl DivisionByZero
      else
        let fb0 = fb\<lparr>is_appended := True\<rparr>;
            startPage = buf_size fb0 div pageDataSize fb0;
            startPageOffset = buf_size fb0 mod pageDataSize fb0;
            numPagesToWrite =
              (numBytes + startPageOffset + pageDataSize fb0 - 1) div pageDataSize fb0;
            initialNumPages = length (multiPages fb0);
            fb1 = fb0\<lparr>buf_size := buf_size fb0 + numBytes\<rparr>;
            epoch = fm_epoch fm
        in bind_err
             (append_loop startPage startPageOffset initialNumPages epoch
                [startPage ..< startPage + numPagesToWrite] (fm, fb1, src, numBytes))
             (\<lambda>(fm', fb', curPtr, bytesLeft).
                if bytesLeft = 0 then Inr (fm', fb') else Inl CheckFailed))"

text \<open>
  \<open>write\<close>. The three cases of the loop body are the source's: a page that did not exist
  when the call began is added; a page whose last epoch lies before the current one gets
  a new version (with the two guarded \<open>copyPage\<close> calls, under the conditions as the source
  writes them); otherwise the current version is written in place. After the payload, the
  last page of a growing write gets the header \<open>writeHeader(page, 0,
  multiPages_[0].epochs.back(), true)\<close>.
\<close>

definition write_page ::
  "nat \<Rightarrow> nat \<Rightarrow> nat \<Rightarrow> nat \<Rightarrow> int \<Rightarrow> bool \<Rightarrow> nat \<Rightarrow> FileMgr \<times> FileBuffer \<times> byte list \<times> nat \<Rightarrow>
   error + (FileMgr \<times> FileBuffer \<times> byte list \<times> nat)" where
  "write_page startPage startPageOffset numPagesToWrite initialNumPages epoch tempIsAppended pn st =
     (case st of (fm, fb, curPtr, bytesLeft) \<Rightarrow>
        bind_err
          (if pn \<ge> initialNumPages then
             bind_err (addNewMultiPage fm fb epoch) (\<lambda>(fm1, fb1, page).
             bind_err (writeHeader fm1 fb1 page (int pn) epoch False) (\<lambda>fm2.
             Inr (fm2, fb1, page)))
           else if pn \<ge> length (multiPages fb) \<or> epochs (multiPages fb ! pn) = []
                   \<or> pageVersions (multiPages fb ! pn) = []
             then Inl OutOfRange
           else if last (epochs (multiPages fb ! pn)) < epoch then
             (let mp = multiPages fb ! pn;
                  lastPage = current mp
              in bind_err (requestFreePage fm (pageSize fb) False) (\<lambda>(fm1, page).
                 let fb1 = fb\<lparr>multiPages := (multiPages fb)
                             [pn := mp\<lparr>epochs := epochs mp @ [epoch],
                                       pageVersions := pageVersions mp @ [page]\<rparr>]\<rparr>
                 in
                 bind_err (if pn = startPage \<and> startPageOffset > 0
                           then copyPage fm1 fb1 lastPage page startPageOffset 0
                           else Inr fm1) (\<lambda>fm2.
                 bind_err (if pn = startPage + numPagesToWrite \<and> bytesLeft > 0
                           then copyPage fm2 fb1 lastPage page
                                  (pageDataSize fb1 - bytesLeft) bytesLeft
                           else Inr fm2) (\<lambda>fm3.
                 bind_err (writeHeader fm3 fb1 page (int pn) epoch False) (\<lambda>fm4.
                 Inr (fm4, fb1, page))))))
           else Inr (fm, fb, current (multiPages fb ! pn)))
          (\<lambda>(fm', fb', page).
             bind_err (write_payload fm' fb' page (pn = startPage) startPageOffset bytesLeft curPtr)
               (\<lambda>(fm'', bytesWritten).
                  if tempIsAppended \<and> pn = startPage + numPagesToWrite - 1 then
                    (if multiPages fb' = [] \<or> epochs (multiPages fb' ! 0) = [] then Inl OutOfRange
                     else bind_err
                            (writeHeader fm'' fb' page 0 (last (epochs (multiPages fb' ! 0))) True)
                            (\<lambda>fm3. Inr (fm3, fb', drop bytesWritten curPtr, bytesLeft - bytesWritten)))
                  else Inr (fm'', fb', drop bytesWritten curPtr, bytesLeft - bytesWritten))))"

fun write_loop ::
  "nat \<Rightarrow> nat \<Rightarrow> nat \<Rightarrow> nat \<Rightarrow> int \<Rightarrow> bool \<Rightarrow> nat list \<Rightarrow> FileMgr \<times> FileBuffer \<times> byte list \<times> nat \<Rightarrow>
   error + (FileMgr \<times> FileBuffer \<times> byte list \<times> nat)" where
  "write_loop startPage startPageOffset numPagesToWrite initialNumPages epoch tempIsAppended [] st =
     Inr st"
| "write_loop startPage startPageOffset numPagesToWrite initialNumPages epoch tempIsAppended
     (pn # pns) st =
     bind_err
       (write_page startPage startPageOffset numPagesToWrite initialNumPages epoch tempIsAppended
          pn st)
       (write_loop startPage startPageOffset numPagesToWrite initialNumPages epoch tempIsAppended
          pns)"

definition FileBuffer_write ::
  "FileMgr \<Rightarrow> FileBuffer \<Rightarrow> byte list \<Rightarrow> nat \<Rightarrow> nat \<Rightarrow> MemoryLevel \<Rightarrow>
   error + (FileMgr \<times> FileBuffer)" where
  "FileBuffer_write fm fb src numBytes offset srcBufferType =
     (if srcBufferType \<noteq> CPU_LEVEL then Inl UnsupportedBufferType
      else if numBytes > length src then Inl OutOfRange
      else
        let fb0 = fb\<lparr>is_dirty := True\<rparr>;
            fb1 = (if offset < buf_size fb0 then fb0\<lparr>is_updated := True\<rparr> else fb0);
            tempIsAppended = (offset + numBytes > buf_size fb1);
            fb2 = (if tempIsAppended
                   then fb1\<lparr>is_appended := True, buf_size := offset + numBytes\<rparr> else fb1)
        in if pageDataSize fb2 = 0 then Inl DivisionByZero
           else
             let startPage = offset div pageDataSize fb2;
                 startPageOffset = offset mod pageDataSize fb2;
                 numPagesToWrite =
                   (numBytes + startPageOffset + pageDataSize fb2 - 1) div pageDataSize fb2;
                 initialNumPages = length (multiPages fb2);
                 epoch = fm_epoch fm
             in bind_err
                  (reserve_loop epoch [initialNumPages ..< startPage] (fm, fb2))
                  (\<lambda>(fm1, fb3).
                     bind_err
                       (write_loop startPage startPageOffset numPagesToWrite initialNumPages
                          epoch tempIsAppended [startPage ..< startPage + numPagesToWrite]
                          (fm1, fb3, src, numBytes))
                       (\<lambda>(fm', fb', curPtr, bytesLeft).
                          if bytesLeft = 0 then Inr (fm', fb') else Inl CheckFailed)))"

text \<open>
  \<open>readForThread\<close>. \<open>readThreadDS\<close> without the pointers: the file manager and the buffer's
  pages are passed beside it, and the bytes the thread stores from \<open>t_curPtr\<close> on are its
  result (their number is \<open>totalBytesRead\<close>).
\<close>

record readThreadDS =
  t_startPage :: nat
  t_endPage :: nat
  t_bytesLeft :: nat
  t_startPageOffset :: nat
  t_isFirstPage :: bool

fun read_pages ::
  "FileMgr \<Rightarrow> FileBuffer \<Rightarrow> nat \<Rightarrow> nat list \<Rightarrow> nat \<Rightarrow> bool \<Rightarrow> error + (byte list \<times> nat)" where
  "read_pages fm fb startPageOffset [] bytesLeft isFirstPage = Inr ([], bytesLeft)"
| "read_pages fm fb startPageOffset (pn # pns) bytesLeft isFirstPage =
     (if pn \<ge> length (multiPages fb) then Inl OutOfRange
      else if mp_pageSize (multiPages fb ! pn) \<noteq> pageSize fb then Inl CheckFailed
      else if pageVersions (multiPages fb ! pn) = [] then Inl OutOfRange
      else
        let page = current (multiPages fb ! pn) in
        case getFileInfoForFileId fm (fileId page) of
          None \<Rightarrow> Inl CheckFailed
        | Some fileInfo \<Rightarrow>
            let bytes =
                  (if isFirstPage then
                     FileInfo_read fileInfo
                       (pageNum page * pageSize fb + startPageOffset + reservedHeaderSize fb)
                       (min (pageDataSize fb - startPageOffset) bytesLeft)
                   else
                     FileInfo_read fileInfo
                       (pageNum page * pageSize fb + reservedHeaderSize fb)
                       (min (pageDataSize fb) bytesLeft))
            in bind_err
                 (read_pages fm fb startPageOffset pns (bytesLeft - length bytes) False)
                 (\<lambda>(rest, left). Inr (bytes @ rest, left)))"

definition readForThread :: "FileMgr \<Rightarrow> FileBuffer \<Rightarrow> readThreadDS \<Rightarrow> error + byte list" where
  "readForThread fm fb threadDS =
     bind_err
       (read_pages fm fb (t_startPageOffset threadDS)
          [t_startPage threadDS ..< t_endPage threadDS]
          (t_bytesLeft threadDS) (t_isFirstPage threadDS))
       (\<lambda>(bytes, bytesLeft). if bytesLeft = 0 then Inr bytes else Inl CheckFailed)"

text \<open>
  The loop of \<open>read\<close> that starts the threads. Its variables are the descriptor
  \<open>threadDS\<close>, \<open>numExtraPages\<close>, \<open>numBytesCurrent\<close> and \<open>bytesLeftForThread\<close>; thread \<open>i\<close>
  runs on the descriptor as it is at the start of iteration \<open>i\<close>, and the rest of the
  iteration (\<open>next_threadDS\<close>) prepares the next one. The threads only read, each into its
  own part of the destination, one part after the other: their results are concatenated
  in the order of the threads.
\<close>

definition next_threadDS ::
  "FileBuffer \<Rightarrow> nat \<Rightarrow> readThreadDS \<times> nat \<times> nat \<times> nat \<Rightarrow> readThreadDS \<times> nat \<times> nat \<times> nat" where
  "next_threadDS fb numPagesPerThread st =
     (case st of (threadDS, numExtraPages, numBytesCurrent, bytesLeftForThread) \<Rightarrow>
        let new_start = t_startPage threadDS + (t_endPage threadDS - t_startPage threadDS);
            new_end = (if numExtraPages > 0 then new_start + numPagesPerThread + 1
                       else new_start + numPagesPerThread);
            numExtraPages' = (if numExtraPages > 0 then numExtraPages - 1 else numExtraPages);
            numBytesCurrent' = numBytesCurrent - bytesLeftForThread;
            bytesLeftForThread' = min ((new_end - new_start) * pageDataSize fb) numBytesCurrent'
        in (threadDS\<lparr>t_isFirstPage := False, t_startPage := new_start, t_endPage := new_end,
                      t_bytesLeft := bytesLeftForThread'\<rparr>,
            numExtraPages', numBytesCurrent', bytesLeftForThread'))"

fun read_threads ::
  "FileMgr \<Rightarrow> FileBuffer \<Rightarrow> nat \<Rightarrow> nat \<Rightarrow> readThreadDS \<times> nat \<times> nat \<times> nat \<Rightarrow> error + byte list" where
  "read_threads fm fb numPagesPerThread 0 st = Inr []"
| "read_threads fm fb numPagesPerThread (Suc n) st =
     (case readForThread fm fb (fst st) of
        Inl e \<Rightarrow> Inl e
      | Inr bytes \<Rightarrow>
          (case read_threads fm fb numPagesPerThread n (next_threadDS fb numPagesPerThread st) of
             Inl e \<Rightarrow> Inl e
           | Inr rest \<Rightarrow> Inr (bytes @ rest)))"

text \<open>
  \<open>read\<close>: the bytes stored at \<open>dst\<close>, or the fatal error. \<open>fm_->getNumReaderThreads()\<close> is
  the field \<open>numReaderThreads\<close>.
\<close>

definition FileBuffer_read ::
  "FileMgr \<Rightarrow> FileBuffer \<Rightarrow> nat \<Rightarrow> nat \<Rightarrow> MemoryLevel \<Rightarrow> error + byte list" where
  "FileBuffer_read fm fb numBytes offset dstBufferType =
     (if dstBufferType \<noteq> CPU_LEVEL then Inl UnsupportedBufferType
      else if pageDataSize fb = 0 then Inl DivisionByZero
      else
        let startPage = offset div pageDataSize fb;
            startPageOffset = offset mod pageDataSize fb;
            numPagesToRead = (numBytes + startPageOffset + pageDataSize fb - 1) div pageDataSize fb
        in if \<not> (startPage + numPagesToRead \<le> length (multiPages fb)) then Inl CheckFailed
           else if numPagesToRead > numReaderThreads fm \<and> numReaderThreads fm = 0
             then Inl DivisionByZero
           else
             let numThreads =
                   (if numPagesToRead > numReaderThreads fm then numReaderThreads fm
                    else numPagesToRead);
                 numPagesPerThread =
                   (if numPagesToRead > numReaderThreads fm
                    then numPagesToRead div numReaderThreads fm else 1);
                 numExtraPages =
                   (if numPagesToRead > numReaderThreads fm
                    then numPagesToRead - numReaderThreads fm * numPagesPerThread else 0);
                 t_end = (if numExtraPages > 0 then startPage + numPagesPerThread + 1
                          else startPage + numPagesPerThread);
                 numExtraPages1 = (if numExtraPages > 0 then numExtraPages - 1 else numExtraPages);
                 bytesLeftForThread =
                   min ((t_end - startPage) * pageDataSize fb - startPageOffset) numBytes;
                 threadDS = \<lparr>t_startPage = startPage, t_endPage = t_end,
                             t_bytesLeft = bytesLeftForThread,
                             t_startPageOffset = startPageOffset, t_isFirstPage = True\<rparr>
             in bind_err
                  (if numThreads = 1 then readForThread fm fb threadDS
                   else read_threads fm fb numPagesPerThread numThreads
                          (threadDS, numExtraPages1, numBytes, bytesLeftForThread))
                  (\<lambda>bytes. if length bytes = numBytes then Inr bytes else Inl CheckFailed))"

text \<open>
  The state in which \<open>read\<close> finds a buffer that the operations above have built on a
  file manager with at least one reader thread: the payload is what the header leaves of
  a page, and every logical page has the buffer's page size and a current version that
  lies inside an existing file.
\<close>

definition page_ok :: "FileMgr \<Rightarrow> FileBuffer \<Rightarrow> MultiPage \<Rightarrow> bool" where
  "page_ok fm fb mp \<longleftrightarrow>
     mp_pageSize mp = pageSize fb \<and> pageVersions mp \<noteq> [] \<and>
     (case getFileInfoForFileId fm (fileId (current mp)) of
        None \<Rightarrow> False
      | Some fi \<Rightarrow> (pageNum (current mp) + 1) * pageSize fb \<le> FileInfo_size fi)"

definition buffer_ok :: "FileMgr \<Rightarrow> FileBuffer \<Rightarrow> bool" where
  "buffer_ok fm fb \<longleftrightarrow>
     0 < pageDataSize fb \<and> reservedHeaderSize fb + pageDataSize fb = pageSize fb \<and>
     0 < numReaderThreads fm \<and> list_all (page_ok fm fb) (multiPages fb)"

text \<open>
  The states of the concrete scenarios. A file manager at epoch 1 with two reader threads
  over one zero-filled file whose four pages are all free, for pages of 64 and of 4096
  bytes; a new buffer on each, with a chunk key of four components (a header of 28 bytes,
  32 reserved, which leaves a payload of 32 and of 4064 bytes); and the bytes 1 to 32.
\<close>

definition scenario_fm :: "nat \<Rightarrow> FileMgr" where
  "scenario_fm psize =
     \<lparr>fm_epoch = 1, numReaderThreads = 2,
      files = [\<lparr>fi_pageSize = psize, fi_numPages = 4, freePages = [0, 1, 2, 3],
                fi_data = (\<lambda>i. 0)\<rparr>]\<rparr>"

definition scenario_fb :: "nat \<Rightarrow> FileBuffer" where
  "scenario_fb psize = new_FileBuffer psize [1, 2, 3, 4]"

definition bytes_1_to_32 :: "byte list" where
  "bytes_1_to_32 =
     [1, 2, 3, 4, 5, 6, 7, 8, 9, 10, 11, 12, 13, 14, 15, 16,
      17, 18, 19, 20, 21, 22, 23, 24, 25, 26, 27, 28, 29, 30, 31, 32]"

text \<open>
  Scenario "copy-on-write on write after epoch bump": 32 bytes are appended at epoch 1,
  the epoch becomes 2, and \<open>write(src = [0xFF; 8], n = 8, offset = 4)\<close> follows.
\<close>

definition cow_scenario :: "error + (FileMgr \<times> FileBuffer)" where
  "cow_scenario =
     bind_err (FileBuffer_append (scenario_fm 64) (scenario_fb 64) bytes_1_to_32 32)
       (\<lambda>(fm1, fb1).
          FileBuffer_write (fm1\<lparr>fm_epoch := 2\<rparr>) fb1
            [255, 255, 255, 255, 255, 255, 255, 255] 8 4 CPU_LEVEL)"

text \<open>
  Scenario "growing write": on the new buffer of 4096-byte pages, 8 bytes are written at
  offset 4064, the first payload byte of logical page 1.
\<close>

definition growing_write_scenario :: "error + (FileMgr \<times> FileBuffer)" where
  "growing_write_scenario =
     FileBuffer_write (scenario_fm 4096) (scenario_fb 4096)
       [255, 255, 255, 255, 255, 255, 255, 255] 8 4064 CPU_LEVEL"

text \<open>
  Scenario "append then read across pages": 100 bytes, byte \<open>i\<close> holding \<open>i\<close>, are appended
  to the new buffer of 64-byte pages.
\<close>

definition append_scenario :: "error + (FileMgr \<times> FileBuffer)" where
  "append_scenario =
     FileBuffer_append (scenario_fm 64) (scenario_fb 64) (map of_nat [0 ..< 100]) 100"

section \<open>The reference reduction of the tests (Tests/ResultSetTest.cpp)\<close>

text \<open>
  Slots, keys and the generated values are \<open>int64_t\<close>: 64-bit words, compared as signed
  numbers (\<open>std_min\<close> and \<open>std_max\<close> above). The aggregation kinds are those of
  \<open>generate_random_groups_target_infos\<close> and of the \<open>switch\<close> in \<open>mergeResultSets\<close>.
\<close>

type_synonym i64 = "64 word"

datatype SQLAgg = kMIN | kMAX | kAVG | kSUM | kCOUNT

text \<open>\<open>int64_t\<close> division truncates towards zero.\<close>

definition div_i64 :: "i64 \<Rightarrow> i64 \<Rightarrow> i64" where
  "div_i64 a b = word_of_int (sint a sdiv sint b)"

text \<open>
  \<open>ResultSetEmulator\<close>: the fields that \<open>mergeResultSets\<close> reads. \<open>rs1_groups[j]\<close> says
  whether group \<open>j\<close> is in result set 1, \<open>rs1_values[j]\<close> is the value generated for it;
  the vectors have \<open>rs_entry_count\<close> elements. Of a target only its \<open>agg_kind\<close> is used.
\<close>

record ResultSetEmulator =
  rs_target_infos :: "SQLAgg list"
  rs_entry_count :: nat
  rs1_groups :: "bool list"
  rs2_groups :: "bool list"
  rs1_values :: "i64 list"
  rs2_values :: "i64 list"

definition rseAggregateKMIN :: "ResultSetEmulator \<Rightarrow> nat \<Rightarrow> i64" where
  "rseAggregateKMIN rse i =
     (if rs1_groups rse ! i \<and> rs2_groups rse ! i
        then std_min (rs1_values rse ! i) (rs2_values rse ! i)
      else if rs1_groups rse ! i then rs1_values rse ! i
      else if rs2_groups rse ! i then rs2_values rse ! i
      else 0)"

definition rseAggregateKMAX :: "ResultSetEmulator \<Rightarrow> nat \<Rightarrow> i64" where
  "rseAggregateKMAX rse i =
     (if rs1_groups rse ! i \<and> rs2_groups rse ! i
        then std_max (rs1_values rse ! i) (rs2_values rse ! i)
      else if rs1_groups rse ! i then rs1_values rse ! i
      else if rs2_groups rse ! i then rs2_values rse ! i
      else 0)"

text \<open>\<open>n1\<close> and \<open>n2\<close>, the counts of the two groups, are the constant 1 in the source.\<close>

definition rseAggregateKAVG :: "ResultSetEmulator \<Rightarrow> nat \<Rightarrow> i64" where
  "rseAggregateKAVG rse i =
     (let n1 = 1; n2 = 1 in
      if rs1_groups rse ! i \<and> rs2_groups rse ! i
        then div_i64 (div_i64 (rs1_values rse ! i) n1 + div_i64 (rs2_values rse ! i) n2) 2
      else if rs1_groups rse ! i then div_i64 (rs1_values rse ! i) n1
      else if rs2_groups rse ! i then div_i64 (rs2_values rse ! i) n2
      else 0)"

definition rseAggregateKSUM :: "ResultSetEmulator \<Rightarrow> nat \<Rightarrow> i64" where
  "rseAggregateKSUM rse i =
     (let r1 = (if rs1_groups rse ! i then 0 + rs1_values rse ! i else 0)
      in if rs2_groups rse ! i then r1 + rs2_values rse ! i else r1)"

definition rseAggregateKCOUNT :: "ResultSetEmulator \<Rightarrow> nat \<Rightarrow> i64" where
  "rseAggregateKCOUNT rse i =
     (let r1 = (if rs1_groups rse ! i then 0 + rs1_values rse ! i else 0)
      in if rs2_groups rse ! i then r1 + rs2_values rse ! i else r1)"

text \<open>One row of the reference table: the \<open>switch\<close> over the target's \<open>agg_kind\<close>.\<close>

definition rse_reduced_row :: "ResultSetEmulator \<Rightarrow> nat \<Rightarrow> i64 list" where
  "rse_reduced_row rse j =
     map (\<lambda>k. case k of
                 kMIN \<Rightarrow> rseAggregateKMIN rse j
               | kMAX \<Rightarrow> rseAggregateKMAX rse j
               | kAVG \<Rightarrow> rseAggregateKAVG rse j
               | kSUM \<Rightarrow> rseAggregateKSUM rse j
               | kCOUNT \<Rightarrow> rseAggregateKCOUNT rse j)
       (rs_target_infos rse)"

text \<open>
  \<open>mergeResultSets\<close>: the group map \<open>rseReducedGroups\<close> (all \<open>false\<close> before) and the queue
  \<open>rseReducedTable\<close> of the rows of the groups that are in either result set.
\<close>

definition rseReducedGroups :: "ResultSetEmulator \<Rightarrow> bool list" where
  "rseReducedGroups rse =
     map (\<lambda>j. rs1_groups rse ! j \<or> rs2_groups rse ! j) [0 ..< rs_entry_count rse]"

definition rseReducedTable :: "ResultSetEmulator \<Rightarrow> i64 list list" where
  "rseReducedTable rse =
     map (rse_reduced_row rse)
       (filter (\<lambda>j. rs1_groups rse ! j \<or> rs2_groups rse ! j) [0 ..< rs_entry_count rse])"

text \<open>The emulator with the two result sets in the other order.\<close>

definition rse_swap :: "ResultSetEmulator \<Rightarrow> ResultSetEmulator" where
  "rse_swap rse =
     rse\<lparr>rs1_groups := rs2_groups rse, rs2_groups := rs1_groups rse,
         rs1_values := rs2_values rse, rs2_values := rs1_values rse\<rparr>"

section \<open>Result sets and their reduction\<close>

text \<open>
  Modelled from the spec: the result-set storage and \<open>ResultSetManager::reduce\<close>
  (QueryEngine/ResultSet.h and its implementation are not among the sources; the tests
  above call them). The spec: a result set is "\<open>entry_count\<close> logical entries. Each entry
  consists of \<open>K\<close> key columns followed by \<open>S\<close> target slots (expanded so that a \<open>kAVG\<close>
  target occupies two consecutive slots: sum then count)". The row-major and the
  column-major layout store the same entries at different offsets; the model is of the
  entries. A slot is a 64-bit value: an integer, or the bytes of a float.
\<close>

datatype GroupByColRangeType = OneColKnownRange | MultiColPerfectHash | MultiCol

record QueryMemoryDescriptor =
  hash_type :: GroupByColRangeType
  keyless_hash :: bool
  entry_count :: nat
  key_count :: nat

text \<open>
  Modelled from the spec: the arithmetic of float targets. The spec: "Float targets
  combine by the same rules interpreting slot bytes as \<open>f32\<close>/\<open>f64\<close> per the descriptor's
  compact size". The sum, the minimum and the maximum of two slots read as floats, and the
  bytes of the largest and of the smallest value of the float type, are parameters: one
  \<open>FloatOps\<close> for each compact size.
\<close>

record FloatOps =
  fp_add :: "i64 \<Rightarrow> i64 \<Rightarrow> i64"
  fp_min :: "i64 \<Rightarrow> i64 \<Rightarrow> i64"
  fp_max :: "i64 \<Rightarrow> i64 \<Rightarrow> i64"
  fp_type_max :: i64
  fp_type_min :: i64

text \<open>
  Of a target the reduction uses \<open>agg_kind\<close>, whether its type is a float (\<open>is_fp\<close>), the
  compact size that the descriptor gives to its slot, and \<open>skip_null_val\<close>; \<open>null_val\<close> is
  "its null sentinel", which the spec names and leaves to the target's type.
\<close>

record TargetInfo =
  agg_kind :: SQLAgg
  is_fp :: bool
  compact_size :: nat
  skip_null_val :: bool
  null_val :: i64

record entry =
  key :: "i64 list"
  slots :: "i64 list"

definition EMPTY_KEY_64 :: i64 where "EMPTY_KEY_64 = 0x8000000000000000"

definition EMPTY_VALUE :: i64 where "EMPTY_VALUE = 0xdeadbeef"

text \<open>
  The spec: an entry is occupied iff "key != \<open>EMPTY_KEY_64\<close> or, in keyless mode, any
  target != 0". A key is empty when each of its columns holds \<open>EMPTY_KEY_64\<close>.
\<close>

definition is_occupied :: "QueryMemoryDescriptor \<Rightarrow> entry \<Rightarrow> bool" where
  "is_occupied d e =
     (if keyless_hash d then list_ex (\<lambda>s. s \<noteq> 0) (slots e)
      else list_ex (\<lambda>k. k \<noteq> EMPTY_KEY_64) (key e))"

definition slot_count :: "TargetInfo list \<Rightarrow> nat" where
  "slot_count ts = sum_list (map (\<lambda>t. if agg_kind t = kAVG then 2 else 1) ts)"

text \<open>
  The spec: "the aggregation identity (0 for SUM/COUNT; \<open>TypeMax\<close> for MIN; \<open>TypeMin\<close> for
  MAX; \<open>{0,0}\<close> for AVG)": of the 64-bit integers, or of the float type of the target.
\<close>

definition identity_of :: "(nat \<Rightarrow> FloatOps) \<Rightarrow> TargetInfo \<Rightarrow> i64 list" where
  "identity_of fp t =
     (case agg_kind t of
        kMIN \<Rightarrow> [if is_fp t then fp_type_max (fp (compact_size t)) else T_max]
      | kMAX \<Rightarrow> [if is_fp t then fp_type_min (fp (compact_size t)) else T_min]
      | kAVG \<Rightarrow> [0, 0]
      | kSUM \<Rightarrow> [0]
      | kCOUNT \<Rightarrow> [0])"

definition identity_slots :: "(nat \<Rightarrow> FloatOps) \<Rightarrow> TargetInfo list \<Rightarrow> i64 list" where
  "identity_slots fp ts = concat (map (identity_of fp) ts)"

text \<open>
  The spec: "Combine target slots according to \<open>agg_kind\<close>: MIN: \<open>dst = min(dst, src)\<close>.
  MAX: \<open>dst = max(dst, src)\<close>. SUM, COUNT: \<open>dst = dst + src\<close>. AVG: \<open>(sum_dst, cnt_dst) =
  (sum_dst + sum_src, cnt_dst + cnt_src)\<close>", "Float targets combine by the same rules",
  and "if \<open>skip_null_val\<close> is set for the target and the source slot equals its null
  sentinel, skip the update" (for AVG the slot looked at is the sum). A count is an
  integer. Slots beyond those of the targets are left as they are.
\<close>

definition skip_update :: "TargetInfo \<Rightarrow> i64 \<Rightarrow> bool" where
  "skip_update t src \<longleftrightarrow> skip_null_val t \<and> src = null_val t"

fun reduce_slots ::
  "(nat \<Rightarrow> FloatOps) \<Rightarrow> TargetInfo list \<Rightarrow> i64 list \<Rightarrow> i64 list \<Rightarrow> i64 list" where
  "reduce_slots fp [] ds ss = ds"
| "reduce_slots fp (t # ts) [] ss = []"
| "reduce_slots fp (t # ts) (d # ds) [] = d # ds"
| "reduce_slots fp (t # ts) (d # ds) (s # ss) =
     (case agg_kind t of
        kMIN \<Rightarrow>
          (if skip_update t s then d
           else if is_fp t then fp_min (fp (compact_size t)) d s else std_min d s)
          # reduce_slots fp ts ds ss
      | kMAX \<Rightarrow>
          (if skip_update t s then d
           else if is_fp t then fp_max (fp (compact_size t)) d s else std_max d s)
          # reduce_slots fp ts ds ss
      | kSUM \<Rightarrow>
          (if skip_update t s then d
           else if is_fp t then fp_add (fp (compact_size t)) d s else d + s)
          # reduce_slots fp ts ds ss
      | kCOUNT \<Rightarrow> (if skip_update t s then d else d + s) # reduce_slots fp ts ds ss
      | kAVG \<Rightarrow>
          (case (ds, ss) of
             (d2 # ds', s2 # ss') \<Rightarrow>
               (if skip_update t s then [d, d2]
                else [if is_fp t then fp_add (fp (compact_size t)) d s else d + s, d2 + s2])
               @ reduce_slots fp ts ds' ss'
           | _ \<Rightarrow> d # ds))"

text \<open>
  One source entry and the destination entry it matches. The spec: an entry of the source
  that is not occupied is passed over; "before merging, any slot that is the
  initialization sentinel must be replaced by the aggregation identity": the slots of a
  destination entry that is still empty hold their initial values and become the
  identities. Such an entry takes the key of the source entry: the spec says so of the
  baseline hash ("insert if absent"), and of the perfect hash its scenario "disjoint
  overlap" expects the groups of either input among the occupied entries of the result.
\<close>

definition reduce_entry ::
  "QueryMemoryDescriptor \<Rightarrow> (nat \<Rightarrow> FloatOps) \<Rightarrow> TargetInfo list \<Rightarrow> entry \<Rightarrow> entry \<Rightarrow> entry" where
  "reduce_entry d fp ts dst src =
     (if \<not> is_occupied d src then dst
      else
        let dst0 = (if is_occupied d dst then dst
                    else \<lparr>key = key src, slots = identity_slots fp ts\<rparr>)
        in dst0\<lparr>slots := reduce_slots fp ts (slots dst0) (slots src)\<rparr>)"

text \<open>
  Perfect hash. The spec: the destination is "either input" (the first: "for more than
  two inputs, repeat pairwise into the first"), and "the destination index equals the
  source index".
\<close>

definition reduce_perfect_hash ::
  "QueryMemoryDescriptor \<Rightarrow> (nat \<Rightarrow> FloatOps) \<Rightarrow> TargetInfo list \<Rightarrow> entry list \<Rightarrow> entry list \<Rightarrow>
   entry list" where
  "reduce_perfect_hash d fp ts dst src = map (\<lambda>(x, y). reduce_entry d fp ts x y) (zip dst src)"

text \<open>
  Baseline hash. The spec: the destination is "a fresh buffer"; the matching entry is
  found by "linear probing from \<open>hash(key) mod entry_count\<close>", with "insert if absent". The
  hash function \<open>h\<close> is the writer's and a parameter here, and so is the number \<open>cap\<close> of
  entries of the fresh buffer, which the spec leaves open. \<open>find_entry\<close> makes at most as
  many probes as the buffer has entries; what happens when every entry is taken by
  another key the spec does not say, and the reduction has no result then.
\<close>

fun find_entry :: "QueryMemoryDescriptor \<Rightarrow> entry list \<Rightarrow> i64 list \<Rightarrow> nat \<Rightarrow> nat \<Rightarrow> nat option" where
  "find_entry d tab k 0 i = None"
| "find_entry d tab k (Suc n) i =
     (if \<not> is_occupied d (tab ! i) \<or> key (tab ! i) = k then Some i
      else find_entry d tab k n ((i + 1) mod length tab))"

definition reduce_into_baseline ::
  "QueryMemoryDescriptor \<Rightarrow> (i64 list \<Rightarrow> nat) \<Rightarrow> (nat \<Rightarrow> FloatOps) \<Rightarrow> TargetInfo list \<Rightarrow>
   entry list \<Rightarrow> entry \<Rightarrow> entry list option" where
  "reduce_into_baseline d h fp ts tab src =
     (if \<not> is_occupied d src then Some tab
      else if tab = [] then None
      else case find_entry d tab (key src) (length tab) (h (key src) mod length tab) of
             None \<Rightarrow> None
           | Some i \<Rightarrow> Some (tab[i := reduce_entry d fp ts (tab ! i) src]))"

fun reduce_all_baseline ::
  "QueryMemoryDescriptor \<Rightarrow> (i64 list \<Rightarrow> nat) \<Rightarrow> (nat \<Rightarrow> FloatOps) \<Rightarrow> TargetInfo list \<Rightarrow>
   entry list \<Rightarrow> entry list \<Rightarrow> entry list option" where
  "reduce_all_baseline d h fp ts tab [] = Some tab"
| "reduce_all_baseline d h fp ts tab (src # srcs) =
     (case reduce_into_baseline d h fp ts tab src of
        None \<Rightarrow> None
      | Some tab' \<Rightarrow> reduce_all_baseline d h fp ts tab' srcs)"

definition fresh_buffer :: "nat \<Rightarrow> QueryMemoryDescriptor \<Rightarrow> TargetInfo list \<Rightarrow> entry list" where
  "fresh_buffer cap d ts =
     replicate cap
       \<lparr>key = replicate (key_count d) EMPTY_KEY_64,
        slots = replicate (slot_count ts) EMPTY_VALUE\<rparr>"

text \<open>\<open>reduce([a, b])\<close>: the storage of the reduced result set.\<close>

definition reduce2 ::
  "QueryMemoryDescriptor \<Rightarrow> nat \<Rightarrow> (i64 list \<Rightarrow> nat) \<Rightarrow> (nat \<Rightarrow> FloatOps) \<Rightarrow> TargetInfo list \<Rightarrow>
   entry list \<Rightarrow> entry list \<Rightarrow> entry list option" where
  "reduce2 d cap h fp ts a b =
     (if hash_type d = MultiCol
      then reduce_all_baseline d h fp ts (fresh_buffer cap d ts) (a @ b)
      else Some (reduce_perfect_hash d fp ts a b))"

text \<open>
  The rows of a storage, as \<open>get_next_row\<close> finds them: the indices of its occupied
  entries, their keys, and how many they are.
\<close>

definition occupied_entries :: "QueryMemoryDescriptor \<Rightarrow> entry list \<Rightarrow> nat list" where
  "occupied_entries d tab = filter (\<lambda>i. is_occupied d (tab ! i)) [0 ..< length tab]"

definition occupied_keys :: "QueryMemoryDescriptor \<Rightarrow> entry list \<Rightarrow> i64 list list" where
  "occupied_keys d tab = map key (filter (is_occupied d) tab)"

definition occupied_count :: "QueryMemoryDescriptor \<Rightarrow> entry list \<Rightarrow> nat" where
  "occupied_count d tab = length (filter (is_occupied d) tab)"

text \<open>
  For the statements about single slots: the combination of two slot values by the kind
  of a target (the sum of an AVG is added as the slot of a SUM is); the index of the first
  slot of target \<open>n\<close>; and the entry of a storage that holds a key.
\<close>

definition combine :: "(nat \<Rightarrow> FloatOps) \<Rightarrow> TargetInfo \<Rightarrow> i64 \<Rightarrow> i64 \<Rightarrow> i64" where
  "combine fp t d s =
     (case agg_kind t of
        kMIN \<Rightarrow> (if is_fp t then fp_min (fp (compact_size t)) d s else std_min d s)
      | kMAX \<Rightarrow> (if is_fp t then fp_max (fp (compact_size t)) d s else std_max d s)
      | kSUM \<Rightarrow> (if is_fp t then fp_add (fp (compact_size t)) d s else d + s)
      | kCOUNT \<Rightarrow> d + s
      | kAVG \<Rightarrow> (if is_fp t then fp_add (fp (compact_size t)) d s else d + s))"


definition lookup_key :: "QueryMemoryDescriptor \<Rightarrow> entry list \<Rightarrow> i64 list \<Rightarrow> entry option" where
  "lookup_key d tab k = find (\<lambda>e. is_occupied d e \<and> key e = k) tab"

text \<open>
  The slots \<open>ss\<close> of an entry are plain when none of them makes the reduction skip an
  update for a null, and the identity of every float target is neutral for its slot (of
  the integers this is proved below); they are neutral when the latter holds of the slots
  that are not skipped. The slots \<open>xs\<close> and \<open>ys\<close> commute when the combination of the float
  targets does not depend on their order (of the integers this is proved below, too).
\<close>

fun plain_slots :: "(nat \<Rightarrow> FloatOps) \<Rightarrow> TargetInfo list \<Rightarrow> i64 list \<Rightarrow> bool" where
  "plain_slots fp [] ss = True"
| "plain_slots fp (t # ts) [] = True"
| "plain_slots fp (t # ts) (s # ss) =
     (\<not> skip_update t s \<and>
      (is_fp t \<longrightarrow> combine fp t (hd (identity_of fp t)) s = s) \<and>
      (if agg_kind t = kAVG then plain_slots fp ts (tl ss) else plain_slots fp ts ss))"

fun neutral_slots :: "(nat \<Rightarrow> FloatOps) \<Rightarrow> TargetInfo list \<Rightarrow> i64 list \<Rightarrow> bool" where
  "neutral_slots fp [] ss = True"
| "neutral_slots fp (t # ts) [] = True"
| "neutral_slots fp (t # ts) (s # ss) =
     ((is_fp t \<and> \<not> skip_update t s \<longrightarrow> combine fp t (hd (identity_of fp t)) s = s) \<and>
      (if agg_kind t = kAVG then neutral_slots fp ts (tl ss) else neutral_slots fp ts ss))"

fun commuting :: "(nat \<Rightarrow> FloatOps) \<Rightarrow> TargetInfo list \<Rightarrow> i64 list \<Rightarrow> i64 list \<Rightarrow> bool" where
  "commuting fp [] xs ys = True"
| "commuting fp (t # ts) [] ys = True"
| "commuting fp (t # ts) (x # xs) [] = True"
| "commuting fp (t # ts) (x # xs) (y # ys) =
     ((is_fp t \<longrightarrow> combine fp t x y = combine fp t y x) \<and>
      (if agg_kind t = kAVG then commuting fp ts (tl xs) (tl ys) else commuting fp ts xs ys))"

text \<open>
  Equally-shaped result sets: \<open>entry_count\<close> entries, each with the slots of the targets.
  In a result set of a baseline hash a key is held by one entry at most.
\<close>

definition well_shaped :: "QueryMemoryDescriptor \<Rightarrow> TargetInfo list \<Rightarrow> entry list \<Rightarrow> bool" where
  "well_shaped d ts tab \<longleftrightarrow>
     length tab = entry_count d \<and> list_all (\<lambda>e. length (slots e) = slot_count ts) tab"

definition distinct_keys :: "QueryMemoryDescriptor \<Rightarrow> entry list \<Rightarrow> bool" where
  "distinct_keys d tab \<longleftrightarrow> distinct (occupied_keys d tab)"

text \<open>
  In two result sets of a perfect hash an index stands for one key: entries of the same
  index that are both occupied hold the same key.
\<close>

definition same_keys :: "QueryMemoryDescriptor \<Rightarrow> entry list \<Rightarrow> entry list \<Rightarrow> bool" where
  "same_keys d a b \<longleftrightarrow>
     list_all2 (\<lambda>x y. is_occupied d x \<and> is_occupied d y \<longrightarrow> key x = key y) a b"

definition all_plain ::
  "QueryMemoryDescriptor \<Rightarrow> (nat \<Rightarrow> FloatOps) \<Rightarrow> TargetInfo list \<Rightarrow> entry list \<Rightarrow> bool" where
  "all_plain d fp ts tab \<longleftrightarrow>
     list_all (\<lambda>e. is_occupied d e \<longrightarrow> plain_slots fp ts (slots e)) tab"

definition all_neutral ::
  "QueryMemoryDescriptor \<Rightarrow> (nat \<Rightarrow> FloatOps) \<Rightarrow> TargetInfo list \<Rightarrow> entry list \<Rightarrow> bool" where
  "all_neutral d fp ts tab \<longleftrightarrow>
     list_all (\<lambda>e. is_occupied d e \<longrightarrow> neutral_slots fp ts (slots e)) tab"

definition all_commuting ::
  "QueryMemoryDescriptor \<Rightarrow> (nat \<Rightarrow> FloatOps) \<Rightarrow> TargetInfo list \<Rightarrow> entry list \<Rightarrow> entry list \<Rightarrow> bool" where
  "all_commuting d fp ts a b \<longleftrightarrow>
     list_all (\<lambda>x. list_all (\<lambda>y. commuting fp ts (slots x) (slots y)) b) a"




section \<open>Result sets of the scenarios\<close>

text \<open>
  The targets of the scenarios are integers of eight bytes; where a closed term needs
  float operations these stand in, and no scenario calls them.
\<close>

definition no_fp :: "nat \<Rightarrow> FloatOps" where
  "no_fp n =
     \<lparr>fp_add = (\<lambda>x y. 0), fp_min = (\<lambda>x y. 0), fp_max = (\<lambda>x y. 0),
      fp_type_max = 0, fp_type_min = 0\<rparr>"

definition int_target :: "SQLAgg \<Rightarrow> bool \<Rightarrow> TargetInfo" where
  "int_target k skip =
     \<lparr>agg_kind = k, is_fp = False, compact_size = 8, skip_null_val = skip, null_val = T_min\<rparr>"





text \<open>The same two groups, as the emulator of the tests describes them.\<close>

definition disjoint_rse :: ResultSetEmulator where
  "disjoint_rse =
     \<lparr>rs_target_infos = [kMIN, kSUM], rs_entry_count = 2,
      rs1_groups = [True, False], rs2_groups = [False, True],
      rs1_values = [10, 0], rs2_values = [0, 20]\<rparr>"













text \<open>
  Two result sets of a baseline hash, after the scenario "baseline-hash reduce": four
  entries, two key columns, the targets SUM and AVG, the value 7 in the first result set
  and 3 in the second. The key \<open>(2, 2)\<close> is in both, \<open>(1, 1)\<close> in the first and \<open>(3, 3)\<close> in
  the second. The hash is the sum of the key columns.
\<close>

definition baseline_desc :: QueryMemoryDescriptor where
  "baseline_desc =
     \<lparr>hash_type = MultiCol, keyless_hash = False, entry_count = 4, key_count = 2\<rparr>"

definition baseline_targets :: "TargetInfo list" where
  "baseline_targets = [int_target kSUM True, int_target kAVG True]"

definition baseline_hash :: "i64 list \<Rightarrow> nat" where
  "baseline_hash k = unat (sum_list k)"

definition baseline_empty :: entry where
  "baseline_empty = \<lparr>key = [EMPTY_KEY_64, EMPTY_KEY_64], slots = replicate 3 EMPTY_VALUE\<rparr>"

definition baseline_rs1 :: "entry list" where
  "baseline_rs1 =
     [\<lparr>key = [1, 1], slots = [7, 7, 1]\<rparr>, baseline_empty,
      \<lparr>key = [2, 2], slots = [7, 7, 1]\<rparr>, baseline_empty]"

definition baseline_rs2 :: "entry list" where
  "baseline_rs2 =
     [baseline_empty, \<lparr>key = [2, 2], slots = [3, 3, 1]\<rparr>,
      \<lparr>key = [3, 3], slots = [3, 3, 1]\<rparr>, baseline_empty]"

text \<open>
  The result sets of \<open>TEST(Reduce, BaselineHash)\<close>, with the integer targets of
  \<open>generate_test_target_infos\<close> (MIN, AVG and SUM): four entries each, the keys \<open>(v, v)\<close>
  for the even numbers 0, 2, 4, 6 in the first and for 7, 5, 3, 1 in the second, every
  slot \<open>v\<close> and the count of the AVG 1. The eight keys are distinct; in a buffer of eight
  entries the hash above sends \<open>(0, 0)\<close> and \<open>(4, 4)\<close> to the same entry.
\<close>

definition test_targets :: "TargetInfo list" where
  "test_targets = [int_target kMIN True, int_target kAVG True, int_target kSUM True]"

definition test_entry :: "i64 \<Rightarrow> entry" where
  "test_entry v = \<lparr>key = [v, v], slots = [v, v, 1, v]\<rparr>"

definition test_rs1 :: "entry list" where
  "test_rs1 = map test_entry [0, 2, 4, 6]"

definition test_rs2 :: "entry list" where
  "test_rs2 = map test_entry [7, 5, 3, 1]"

section \<open>Properties of the date-in-days encoder\<close>








lemma sint_std_max: "sint (std_max a b) = max (sint a) (sint b)"
  by (simp add: std_max_def word_sless_alt max_def)

lemma sint_std_min: "sint (std_min a b) = min (sint a) (sint b)"
  by (simp add: std_min_def word_sless_alt min_def)



lemma encode_null:
  "encodeDataAndUpdateStats enc (scast V_min) = Inr (V_min, enc\<lparr>has_nulls := True\<rparr>)"
proof -
  have "(ucast (scast V_min :: T) :: V) = V_min"
    by (simp add: V_min_def)
  then show ?thesis
    by (simp add: encodeDataAndUpdateStats_def)
qed

lemma encode_loop_nulls:
  "i + k \<le> n \<or> replicating \<and> 0 < n \<Longrightarrow>
   encode_loop enc (replicate n (scast V_min)) replicating i k =
     Inr (replicate k V_min, if 0 < k then enc\<lparr>has_nulls := True\<rparr> else enc)"
proof (induction k arbitrary: enc i)
  case 0
  then show ?case by simp
next
  case (Suc k)
  have idx: "(if replicating then 0 else i) < n"
    using Suc.prems by auto
  have step: "encode_loop (enc\<lparr>has_nulls := True\<rparr>) (replicate n (scast V_min)) replicating (Suc i) k =
     Inr (replicate k V_min, if 0 < k then enc\<lparr>has_nulls := True\<rparr>\<lparr>has_nulls := True\<rparr> else enc\<lparr>has_nulls := True\<rparr>)"
    using Suc.prems by (intro Suc.IH) auto
  show ?case
    using idx by (simp add: Let_def encode_null step)
qed

text \<open>
  Claim C10. An input that takes the null branch (the stored-domain sentinel \<open>V::MIN\<close>,
  widened to \<open>T\<close>) sets \<open>has_nulls\<close> and leaves \<open>dataMin\<close> and \<open>dataMax\<close> as they were;
  after appending nothing but nulls to a fresh encoder the statistics still hold the
  constructor's values \<open>dataMin = T::max\<close> and \<open>dataMax = T::min\<close>.
\<close>

theorem C10_null_branch_leaves_min_max:
  "encodeDataAndUpdateStats enc (scast V_min) = Inr (V_min, enc\<lparr>has_nulls := True\<rparr>) \<and>
   appendData new_DateDaysEncoder (replicate (Suc n) (scast V_min)) (Suc n) True False (- 1) =
     Inr (\<lparr>num_elems = Suc n, dataMin = T_max, dataMax = T_min, has_nulls = True\<rparr>,
          BufAppend (replicate (Suc n) V_min),
          \<lparr>numElements = Suc n, stats_min = T_max, stats_max = T_min, stats_has_nulls = True\<rparr>)"
proof -
  have "encode_loop new_DateDaysEncoder (replicate (Suc n) (scast V_min)) False 0 (Suc n) =
     Inr (replicate (Suc n) V_min, new_DateDaysEncoder\<lparr>has_nulls := True\<rparr>)"
    using encode_loop_nulls [of 0 "Suc n" "Suc n" False new_DateDaysEncoder] by simp
  then have "appendData new_DateDaysEncoder (replicate (Suc n) (scast V_min)) (Suc n) True False (- 1) =
     Inr (\<lparr>num_elems = Suc n, dataMin = T_max, dataMax = T_min, has_nulls = True\<rparr>,
          BufAppend (replicate (Suc n) V_min),
          \<lparr>numElements = Suc n, stats_min = T_max, stats_max = T_min, stats_has_nulls = True\<rparr>)"
    by (simp add: appendData_def getMetadata_def new_DateDaysEncoder_def del: encode_loop.simps replicate.simps)
  then show ?thesis
    using encode_null by blast
qed



text \<open>
  Claim C3, as the code has it. The null input is \<open>V::MIN\<close> widened to \<open>T\<close>, that is
  \<open>-2147483648\<close>: it is stored as \<open>V::MIN\<close> and sets \<open>has_nulls\<close>. For the inputs
  \<open>[0, 86399, 86400, -1, -2147483648]\<close> the stored values are \<open>[0, 0, 1, -1, V::MIN]\<close>,
  with \<open>has_nulls = true\<close>, \<open>dataMin = -86400\<close> and \<open>dataMax = 86400\<close>.
\<close>

theorem C3_null_is_V_min:
  "encodeDataAndUpdateStats enc (scast V_min) = Inr (V_min, enc\<lparr>has_nulls := True\<rparr>) \<and>
   sint (scast V_min :: T) = - 2147483648 \<and>
   appendData new_DateDaysEncoder [0, 86399, 86400, - 1, scast V_min] 5 True False (- 1) =
     Inr (\<lparr>num_elems = 5, dataMin = - 86400, dataMax = 86400, has_nulls = True\<rparr>,
          BufAppend [0, 0, 1, - 1, V_min],
          \<lparr>numElements = 5, stats_min = - 86400, stats_max = 86400, stats_has_nulls = True\<rparr>)"
proof -
  have a: "sint (scast V_min :: T) = - 2147483648"
    by (simp add: V_min_def)
  have b: "appendData new_DateDaysEncoder [0, 86399, 86400, - 1, scast V_min] 5 True False (- 1) =
     Inr (\<lparr>num_elems = 5, dataMin = - 86400, dataMax = 86400, has_nulls = True\<rparr>,
          BufAppend [0, 0, 1, - 1, V_min],
          \<lparr>numElements = 5, stats_min = - 86400, stats_max = 86400, stats_has_nulls = True\<rparr>)"
    by code_simp
  from encode_null a b show ?thesis by blast
qed

text \<open>
  Claim C3 as stated fails: \<open>T::MIN\<close> is not the value the null test compares with, so it
  goes through the validator, which rejects it; even its truncated day count is not
  \<open>V::MIN\<close>. The spec's scenario with \<open>i64::MIN\<close> as last input raises \<open>OverflowError\<close>.
\<close>

theorem C3_T_min_counterexample:
  "T_min \<noteq> scast V_min \<and>
   (ucast (get_epoch_days_from_seconds T_min) :: V) \<noteq> V_min \<and>
   encodeDataAndUpdateStats new_DateDaysEncoder T_min = Inl OverflowError \<and>
   appendData new_DateDaysEncoder [0, 86399, 86400, - 1, T_min] 5 True False (- 1) = Inl OverflowError"
  by code_simp

section \<open>Properties of the chunk buffer\<close>

lemma FileInfo_read_length:
  "offset + n \<le> FileInfo_size fi \<Longrightarrow> length (FileInfo_read fi offset n) = n"
  by (simp add: FileInfo_read_def)

lemma page_ok_nth:
  "buffer_ok fm fb \<Longrightarrow> pn < length (multiPages fb) \<Longrightarrow> page_ok fm fb (multiPages fb ! pn)"
  by (simp add: buffer_ok_def list_all_length)

text \<open>One page of \<open>readForThread\<close>'s loop never reads past its page.\<close>

lemma read_pages_ok:
  assumes ok: "buffer_ok fm fb"
  shows "\<forall>pn \<in> set pns. pn < length (multiPages fb) \<Longrightarrow>
         isFirstPage \<longrightarrow> startPageOffset < pageDataSize fb \<Longrightarrow>
         \<exists>bytes. read_pages fm fb startPageOffset pns bytesLeft isFirstPage
                   = Inr (bytes, bytesLeft - length bytes) \<and>
                 length bytes =
                   min bytesLeft (length pns * pageDataSize fb
                                  - (if isFirstPage then startPageOffset else 0))"
proof (induction pns arbitrary: bytesLeft isFirstPage)
  case Nil
  then show ?case by simp
next
  case (Cons pn pns)
  let ?mp = "multiPages fb ! pn"
  let ?page = "current ?mp"
  let ?so = "if isFirstPage then startPageOffset else 0"
  have pn: "pn < length (multiPages fb)" using Cons.prems(1) by simp
  have pok: "page_ok fm fb ?mp" using page_ok_nth [OF ok pn] .
  then obtain fi where fi: "getFileInfoForFileId fm (fileId ?page) = Some fi"
    and inside: "(pageNum ?page + 1) * pageSize fb \<le> FileInfo_size fi"
    by (auto simp: page_ok_def split: option.splits)
  have psz: "mp_pageSize ?mp = pageSize fb" and pv: "pageVersions ?mp \<noteq> []"
    using pok by (simp_all add: page_ok_def)
  have hdr: "reservedHeaderSize fb + pageDataSize fb = pageSize fb"
    using ok by (simp add: buffer_ok_def)
  have so: "?so \<le> pageDataSize fb" using Cons.prems(2) by auto
  let ?n = "min (pageDataSize fb - ?so) bytesLeft"
  let ?bytes = "FileInfo_read fi (pageNum ?page * pageSize fb + ?so + reservedHeaderSize fb) ?n"
  have n_le: "?so + ?n \<le> pageDataSize fb" using so by simp
  have "pageNum ?page * pageSize fb + ?so + reservedHeaderSize fb + ?n
          = pageNum ?page * pageSize fb + (reservedHeaderSize fb + (?so + ?n))"
    by simp
  also have "\<dots> \<le> pageNum ?page * pageSize fb + pageSize fb"
    using n_le hdr by (intro add_left_mono) linarith
  finally have "pageNum ?page * pageSize fb + ?so + reservedHeaderSize fb + ?n
          \<le> (pageNum ?page + 1) * pageSize fb"
    by simp
  then have len: "length ?bytes = ?n"
    using inside by (intro FileInfo_read_length) simp
  from Cons.IH [of False "bytesLeft - ?n"] Cons.prems(1)
  obtain rest where rest: "read_pages fm fb startPageOffset pns (bytesLeft - ?n) False
        = Inr (rest, bytesLeft - ?n - length rest)"
      and lrest: "length rest = min (bytesLeft - ?n) (length pns * pageDataSize fb)"
    by auto
  have step: "read_pages fm fb startPageOffset (pn # pns) bytesLeft isFirstPage
        = Inr (?bytes @ rest, bytesLeft - ?n - length rest)"
    using pn psz pv fi len rest by (cases isFirstPage) (simp_all add: Let_def)
  have arith: "\<And>n so D L r k::nat. so \<le> D \<Longrightarrow> n = min (D - so) L \<Longrightarrow>
      r = min (L - n) (k * D) \<Longrightarrow> n + r = min L (Suc k * D - so)"
    by (auto simp: min_def)
  have total: "length (?bytes @ rest)
        = min bytesLeft (length (pn # pns) * pageDataSize fb - ?so)"
    using arith [OF so refl, of "length rest" bytesLeft "length pns"] lrest len
    by (simp del: min.absorb1 min.absorb2 min.absorb3 min.absorb4)
  show ?case
    using step total by (intro exI [of _ "?bytes @ rest"]) (simp add: len)
qed

lemma readForThread_ok:
  assumes ok: "buffer_ok fm fb"
    and range: "t_endPage ds \<le> length (multiPages fb)"
    and first: "t_isFirstPage ds \<longrightarrow> t_startPageOffset ds < pageDataSize fb"
    and fits: "t_bytesLeft ds \<le> (t_endPage ds - t_startPage ds) * pageDataSize fb
                  - (if t_isFirstPage ds then t_startPageOffset ds else 0)"
  shows "\<exists>bytes. readForThread fm fb ds = Inr bytes \<and> length bytes = t_bytesLeft ds"
proof -
  have pns: "\<forall>pn \<in> set [t_startPage ds ..< t_endPage ds]. pn < length (multiPages fb)"
    using range by auto
  from read_pages_ok [OF ok pns first, of "t_bytesLeft ds"]
  obtain bytes where
    rd: "read_pages fm fb (t_startPageOffset ds) [t_startPage ds ..< t_endPage ds]
           (t_bytesLeft ds) (t_isFirstPage ds) = Inr (bytes, t_bytesLeft ds - length bytes)"
    and len: "length bytes = min (t_bytesLeft ds)
        (length [t_startPage ds ..< t_endPage ds] * pageDataSize fb
           - (if t_isFirstPage ds then t_startPageOffset ds else 0))"
    by blast
  have "length bytes = t_bytesLeft ds"
    using len fits by simp
  then show ?thesis
    using rd by (simp add: readForThread_def)
qed

text \<open>
  The threads of \<open>read\<close>: \<open>n\<close> threads are still to be started, the next one on \<open>ds\<close>.
\<close>

lemma read_threads_ok:
  assumes ok: "buffer_ok fm fb" and per: "0 < per"
  shows "t_bytesLeft ds = blt \<Longrightarrow>
         blt = min ((t_endPage ds - t_startPage ds) * pageDataSize fb
                      - (if t_isFirstPage ds then t_startPageOffset ds else 0)) cur \<Longrightarrow>
         t_isFirstPage ds \<longrightarrow> t_startPageOffset ds < pageDataSize fb \<Longrightarrow>
         t_startPage ds < t_endPage ds \<Longrightarrow>
         extra \<le> n - 1 \<Longrightarrow>
         t_endPage ds + (n - 1) * per + extra \<le> length (multiPages fb) \<Longrightarrow>
         \<exists>bytes. read_threads fm fb per n (ds, extra, cur, blt) = Inr bytes \<and>
           length bytes =
             (if n = 0 then 0
              else min cur ((t_endPage ds - t_startPage ds) * pageDataSize fb
                      - (if t_isFirstPage ds then t_startPageOffset ds else 0)
                      + ((n - 1) * per + extra) * pageDataSize fb))"
proof (induction n arbitrary: ds extra cur blt)
  case 0
  then show ?case by simp
next
  case (Suc n)
  let ?D = "pageDataSize fb"
  let ?cap = "(t_endPage ds - t_startPage ds) * ?D
                - (if t_isFirstPage ds then t_startPageOffset ds else 0)"
  have range: "t_endPage ds \<le> length (multiPages fb)"
    using Suc.prems(6) by simp
  have fits: "t_bytesLeft ds \<le> ?cap"
    using Suc.prems(1,2) by simp
  from readForThread_ok [OF ok range Suc.prems(3) fits]
  obtain bytes where rd: "readForThread fm fb ds = Inr bytes" and len: "length bytes = blt"
    using Suc.prems(1) by auto
  obtain ds' extra' cur' blt' where nxt:
    "next_threadDS fb per (ds, extra, cur, blt) = (ds', extra', cur', blt')"
    by (metis prod_cases4)
  have ds': "t_startPage ds' = t_endPage ds"
       "t_endPage ds' = t_endPage ds + per + (if 0 < extra then 1 else 0)"
       "t_isFirstPage ds' = False" "t_bytesLeft ds' = blt'"
    and extra': "extra' = extra - (if 0 < extra then 1 else 0)"
    and cur': "cur' = cur - blt"
    and blt': "blt' = min ((per + (if 0 < extra then 1 else 0)) * ?D) (cur - blt)"
    using nxt Suc.prems(4) by (auto simp: next_threadDS_def Let_def)
  show ?case
  proof (cases n)
    case 0
    have "extra = 0" using Suc.prems(5) 0 by simp
    then show ?thesis
      using rd len nxt 0 Suc.prems(2) by (simp add: min.commute)
  next
    case (Suc m)
    have p1: "t_bytesLeft ds' = blt'" by (rule ds'(4))
    have p2: "blt' = min ((t_endPage ds' - t_startPage ds') * ?D
                      - (if t_isFirstPage ds' then t_startPageOffset ds' else 0)) cur'"
      using ds' cur' blt' by simp
    have p3: "t_isFirstPage ds' \<longrightarrow> t_startPageOffset ds' < ?D"
      using ds' by simp
    have p4: "t_startPage ds' < t_endPage ds'"
      using ds' per by simp
    have p5: "extra' \<le> n - 1"
      using extra' \<open>extra \<le> Suc n - 1\<close> Suc by auto
    have p6: "t_endPage ds' + (n - 1) * per + extra' \<le> length (multiPages fb)"
      using ds' extra' Suc.prems(6) Suc by (auto simp: algebra_simps)
    from Suc.IH [OF p1 p2 p3 p4 p5 p6]
    obtain rest where rest: "read_threads fm fb per n (ds', extra', cur', blt') = Inr rest"
      and lrest: "length rest =
             min cur' ((t_endPage ds' - t_startPage ds') * ?D
                      - (if t_isFirstPage ds' then t_startPageOffset ds' else 0)
                      + ((n - 1) * per + extra') * ?D)"
      using Suc by auto
    have R: "(t_endPage ds' - t_startPage ds') * ?D
                      - (if t_isFirstPage ds' then t_startPageOffset ds' else 0)
                      + ((n - 1) * per + extra') * ?D
             = (n * per + extra) * ?D"
    proof (cases extra)
      case 0
      then show ?thesis using ds' extra' Suc by (simp add: algebra_simps)
    next
      case (Suc e)
      then show ?thesis using ds' extra' \<open>n = Suc m\<close> by (simp add: algebra_simps)
    qed
    have arith: "\<And>b c r C R::nat. b = min C c \<Longrightarrow> r = min (c - b) R \<Longrightarrow> b + r = min c (C + R)"
      by (auto simp: min_def)
    have "length (bytes @ rest) = min cur (?cap + (n * per + extra) * ?D)"
      using arith [OF Suc.prems(2), of "length rest" "(n * per + extra) * ?D"] lrest len
      by (simp only: R cur' length_append)
    then show ?thesis
      using rd rest nxt by simp
  qed
qed

lemma ceil_div_le: "0 < (D::nat) \<Longrightarrow> x \<le> ((x + D - 1) div D) * D"
proof -
  assume D: "0 < D"
  have "(x + D - 1) mod D < D" using D by simp
  moreover have "(x + D - 1) div D * D + (x + D - 1) mod D = x + D - 1" by simp
  ultimately show ?thesis by linarith
qed

lemma thread_split:
  fixes P T0 :: nat
  assumes "0 < P" "0 < T0"
  defines "T \<equiv> (if P > T0 then T0 else P)"
    and "per \<equiv> (if P > T0 then P div T0 else 1)"
  defines "extra \<equiv> (if P > T0 then P - T0 * per else 0)"
  shows "0 < T" "0 < per" "T * per + extra = P" "extra \<le> T - 1"
proof -
  show "0 < T" using assms by (simp add: T_def)
  show "0 < per" using assms by (simp add: per_def div_greater_zero_iff)
  show "T * per + extra = P"
    using assms by (simp add: T_def per_def extra_def)
  show "extra \<le> T - 1"
  proof (cases "P > T0")
    case True
    then have "extra = P mod T0"
      by (simp add: extra_def per_def minus_mult_div_eq_mod)
    moreover have "P mod T0 < T0" using assms by simp
    ultimately show ?thesis using True by (simp add: T_def)
  next
    case False
    then show ?thesis by (simp add: extra_def)
  qed
qed

lemma FileBuffer_read_CPU_ok:
  assumes ok: "buffer_ok fm fb"
    and range: "offset div pageDataSize fb
                 + (numBytes + offset mod pageDataSize fb + pageDataSize fb - 1) div pageDataSize fb
               \<le> length (multiPages fb)"
  shows "\<exists>bytes. FileBuffer_read fm fb numBytes offset CPU_LEVEL = Inr bytes \<and>
                 length bytes = numBytes"
proof -
  define D where "D = pageDataSize fb"
  define T0 where "T0 = numReaderThreads fm"
  define s where "s = offset div D"
  define so where "so = offset mod D"
  define P where "P = (numBytes + so + D - 1) div D"
  define T where "T = (if P > T0 then T0 else P)"
  define per where "per = (if P > T0 then P div T0 else 1)"
  define extra where "extra = (if P > T0 then P - T0 * per else 0)"
  define t_end where "t_end = (if extra > 0 then s + per + 1 else s + per)"
  define extra1 where "extra1 = (if extra > 0 then extra - 1 else extra)"
  define blt where "blt = min ((t_end - s) * D - so) numBytes"
  define ds where "ds = \<lparr>t_startPage = s, t_endPage = t_end, t_bytesLeft = blt,
                          t_startPageOffset = so, t_isFirstPage = True\<rparr>"
  have D: "0 < D" and T0: "0 < T0"
    using ok by (simp_all add: buffer_ok_def D_def T0_def)
  have so: "so < D" using D by (simp add: so_def)
  have rng: "s + P \<le> length (multiPages fb)"
    using range by (simp add: s_def P_def so_def D_def)
  have fit: "numBytes + so \<le> P * D"
    using ceil_div_le [OF D, of "numBytes + so"] by (simp add: P_def)
  have rd: "FileBuffer_read fm fb numBytes offset CPU_LEVEL =
      bind_err (if T = 1 then readForThread fm fb ds
                else read_threads fm fb per T (ds, extra1, numBytes, blt))
        (\<lambda>bytes. if length bytes = numBytes then Inr bytes else Inl CheckFailed)"
    using D T0 rng
    unfolding FileBuffer_read_def ds_def blt_def extra1_def t_end_def extra_def per_def T_def
      P_def so_def s_def T0_def D_def
    by (simp add: Let_def)
  show ?thesis
  proof (cases "P = 0")
    case True
    then have "numBytes = 0" using fit by simp
    moreover have "T = 0" using True by (simp add: T_def)
    ultimately show ?thesis using rd by simp
  next
    case False
    then have P: "0 < P" by simp
    note sp = thread_split [OF P T0, folded T_def per_def, folded extra_def]
    have tend: "t_end = s + per + (if 0 < extra then 1 else 0)"
      by (simp add: t_end_def)
    have e1: "extra1 = extra - (if 0 < extra then 1 else 0)"
      by (simp add: extra1_def)
    have pages: "t_end + (T - 1) * per + extra1 = s + P"
    proof -
      obtain T' where T': "T = Suc T'" using sp(1) by (cases T) auto
      have "t_end + (T - 1) * per + extra1 = s + (T * per + extra)"
        by (cases extra) (simp_all add: tend e1 T')
      then show ?thesis using sp(3) by simp
    qed
    have cap: "(t_end - s) * D - so + ((T - 1) * per + extra1) * D = P * D - so"
    proof -
      have "so \<le> (t_end - s) * D"
      proof -
        obtain k where "t_end - s = Suc k"
          using sp(2) by (cases "t_end - s") (simp_all add: tend)
        then show ?thesis using so by simp
      qed
      then have "(t_end - s) * D - so + ((T - 1) * per + extra1) * D
                 = ((t_end - s) + ((T - 1) * per + extra1)) * D - so"
        by (simp add: algebra_simps)
      also have "(t_end - s) + ((T - 1) * per + extra1) = P"
        using pages by (simp add: tend)
      finally show ?thesis .
    qed
    have first: "t_isFirstPage ds \<longrightarrow> t_startPageOffset ds < pageDataSize fb"
      using so by (simp add: ds_def D_def)
    have "\<exists>bytes. (if T = 1 then readForThread fm fb ds
                else read_threads fm fb per T (ds, extra1, numBytes, blt)) = Inr bytes \<and>
              length bytes = numBytes"
    proof (cases "T = 1")
      case True
      have r: "t_endPage ds \<le> length (multiPages fb)"
        using pages rng True by (simp add: ds_def)
      have f: "t_bytesLeft ds \<le> (t_endPage ds - t_startPage ds) * pageDataSize fb
                  - (if t_isFirstPage ds then t_startPageOffset ds else 0)"
        by (simp add: ds_def blt_def D_def)
      have "extra1 = 0" using sp(4) True by (simp add: e1)
      then have "blt = numBytes"
        using cap fit True by (simp add: blt_def)
      with readForThread_ok [OF ok r first f] True show ?thesis
        by (simp add: ds_def)
    next
      case False
      have q1: "t_bytesLeft ds = blt" by (simp add: ds_def)
      have q2: "blt = min ((t_endPage ds - t_startPage ds) * pageDataSize fb
                      - (if t_isFirstPage ds then t_startPageOffset ds else 0)) numBytes"
        by (simp add: ds_def blt_def D_def)
      have q4: "t_startPage ds < t_endPage ds"
        using sp(2) by (simp add: ds_def tend)
      have q5: "extra1 \<le> T - 1" using sp(4) by (simp add: e1)
      have q6: "t_endPage ds + (T - 1) * per + extra1 \<le> length (multiPages fb)"
        using pages rng by (simp add: ds_def)
      from read_threads_ok [OF ok sp(2) q1 q2 first q4 q5 q6]
      obtain bytes where b: "read_threads fm fb per T (ds, extra1, numBytes, blt) = Inr bytes"
        and l: "length bytes = min numBytes ((t_endPage ds - t_startPage ds) * pageDataSize fb
                      - (if t_isFirstPage ds then t_startPageOffset ds else 0)
                      + ((T - 1) * per + extra1) * pageDataSize fb)"
        using sp(1) by auto
      have "length bytes = min numBytes (P * D - so)"
        using l cap by (simp add: ds_def D_def)
      then have "length bytes = numBytes" using fit by simp
      then show ?thesis using b False by simp
    qed
    then show ?thesis using rd by auto
  qed
qed

text \<open>
  Claim C9. \<open>read\<close> with a destination other than \<open>CPU_LEVEL\<close> is fatal with "Unsupported
  Buffer type", whatever the buffer and the file manager hold (no page is looked at); with
  a \<open>CPU_LEVEL\<close> destination, on a well-formed buffer and for a range that passes the
  \<open>CHECK\<close> on the allocated pages, it passes every later \<open>CHECK\<close> and returns
  \<open>numBytes\<close> bytes.
\<close>

theorem C9_read_destination:
  "(dstBufferType \<noteq> CPU_LEVEL \<longrightarrow>
      FileBuffer_read fm fb numBytes offset dstBufferType = Inl UnsupportedBufferType) \<and>
   (buffer_ok fm fb \<and>
    offset div pageDataSize fb
      + (numBytes + offset mod pageDataSize fb + pageDataSize fb - 1) div pageDataSize fb
      \<le> length (multiPages fb) \<longrightarrow>
      (\<exists>bytes. FileBuffer_read fm fb numBytes offset CPU_LEVEL = Inr bytes \<and>
               length bytes = numBytes))"
proof (intro conjI impI)
  assume "dstBufferType \<noteq> CPU_LEVEL"
  then show "FileBuffer_read fm fb numBytes offset dstBufferType = Inl UnsupportedBufferType"
    by (simp add: FileBuffer_read_def)
next
  assume "buffer_ok fm fb \<and>
    offset div pageDataSize fb
      + (numBytes + offset mod pageDataSize fb + pageDataSize fb - 1) div pageDataSize fb
      \<le> length (multiPages fb)"
  then show "\<exists>bytes. FileBuffer_read fm fb numBytes offset CPU_LEVEL = Inr bytes \<and>
               length bytes = numBytes"
    using FileBuffer_read_CPU_ok by blast
qed


subsection \<open>The scenarios, evaluated\<close>

lemmas fb_eval = new_FileBuffer_def calcHeaderBuffer_def headerBufferOffset_def
  METADATA_PAGE_SIZE_def FileBuffer_append_def append_page_def addNewMultiPage_def
  requestFreePage_def writeHeader_def getFileInfoForFileId_def update_file_def
  FileInfo_write_def FileInfo_read_def FileInfo_size_def write_payload_def header_ints_def
  le32_def current_def Let_def FileBuffer_write_def write_page_def copyPage_def
  FileBuffer_reserve_def FileBuffer_read_def readForThread_def next_threadDS_def
  scenario_fm_def scenario_fb_def bytes_1_to_32_def cow_scenario_def
  growing_write_scenario_def append_scenario_def upt_conv_Cons

lemma read_threads_numeral:
  "read_threads fm fb per (numeral k) st =
     (case readForThread fm fb (fst st) of
        Inl e \<Rightarrow> Inl e
      | Inr bytes \<Rightarrow>
          (case read_threads fm fb per (pred_numeral k) (next_threadDS fb per st) of
             Inl e \<Rightarrow> Inl e
           | Inr rest \<Rightarrow> Inr (bytes @ rest)))"
  by (simp add: numeral_eq_Suc)

lemma append_scenario_state:
  "(case append_scenario of
      Inl e \<Rightarrow> False
    | Inr (fm, fb) \<Rightarrow>
        buffer_ok fm fb \<and> length (multiPages fb) = 4 \<and> pageDataSize fb = 32 \<and> buf_size fb = 100)"
  by (simp add: fb_eval buffer_ok_def page_ok_def)

lemma append_scenario_read:
  "(case append_scenario of
      Inl e \<Rightarrow> Inl e
    | Inr (fm, fb) \<Rightarrow> FileBuffer_read fm fb 100 0 CPU_LEVEL)
   = Inr (map of_nat [0 ..< 100])"
  by (simp add: fb_eval read_threads_numeral)


text \<open>
  Claim C4, at the scenario "copy-on-write on write after epoch bump". Logical page 0
  gets a second version at epoch 2 on the fresh physical page 1, and the four bytes before
  the write are copied into it; but the 20 bytes after the written range are not: the new
  version holds there what the fresh page held (zeros), while the old version holds
  13, ..., 32. The guard of the second \<open>copyPage\<close>, \<open>pageNum == startPage + numPagesToWrite\<close>,
  is false at every page of the loop.
\<close>

theorem C4_post_write_bytes_not_copied:
  "(case cow_scenario of
      Inl e \<Rightarrow> Inl e
    | Inr (fm, fb) \<Rightarrow>
        Inr (map epochs (multiPages fb), map pageVersions (multiPages fb),
             FileInfo_read (files fm ! 0) (0 * 64 + 32) 32,
             FileInfo_read (files fm ! 0) (1 * 64 + 32) 32))
   = Inr ([[1, 2]], [[\<lparr>fileId = 0, pageNum = 0\<rparr>, \<lparr>fileId = 0, pageNum = 1\<rparr>]],
          bytes_1_to_32,
          [1, 2, 3, 4, 255, 255, 255, 255, 255, 255, 255, 255,
           0, 0, 0, 0, 0, 0, 0, 0, 0, 0, 0, 0, 0, 0, 0, 0, 0, 0, 0, 0])"
  by (simp add: fb_eval)

text \<open>
  Claim C5, at the same scenario. The bytes last written at the offsets 12 to 31 are
  13, ..., 32, from the append; \<open>read\<close> of the 32 bytes of the buffer returns zeros there.
\<close>

theorem C5_read_after_write_loses_bytes:
  "(case cow_scenario of
      Inl e \<Rightarrow> Inl e
    | Inr (fm, fb) \<Rightarrow> FileBuffer_read fm fb (buf_size fb) 0 CPU_LEVEL)
   = Inr [1, 2, 3, 4, 255, 255, 255, 255, 255, 255, 255, 255,
          0, 0, 0, 0, 0, 0, 0, 0, 0, 0, 0, 0, 0, 0, 0, 0, 0, 0, 0, 0] \<and>
   (case cow_scenario of
      Inl e \<Rightarrow> Inl e
    | Inr (fm, fb) \<Rightarrow> FileBuffer_read fm fb (buf_size fb) 0 CPU_LEVEL)
   \<noteq> Inr (take 4 bytes_1_to_32 @ [255, 255, 255, 255, 255, 255, 255, 255] @
            drop 12 bytes_1_to_32)"
  by (simp add: fb_eval)

text \<open>
  Claim C6, at the scenario "growing write". The write adds the logical pages 0 and 1
  on the physical pages 0 and 1. After it the header on the physical page 1, the current
  version of logical page 1, carries page id 0, as the header of logical page 0 does: the
  last iteration has overwritten the header \<open>{24, key, 1, 1}\<close> with
  \<open>writeHeader(page, 0, multiPages_[0].epochs.back(), true)\<close>. (The page size here is
  \<open>METADATA_PAGE_SIZE\<close>; with another page size that call places its header at
  \<open>page.pageNum * 4096\<close>, which is not the start of that page.)
\<close>

theorem C6_tail_header_page_id:
  "(case growing_write_scenario of
      Inl e \<Rightarrow> Inl e
    | Inr (fm, fb) \<Rightarrow>
        Inr (map pageVersions (multiPages fb),
             FileInfo_read (files fm ! 0) (0 * 4096) 28,
             FileInfo_read (files fm ! 0) (1 * 4096) 28))
   = Inr ([[\<lparr>fileId = 0, pageNum = 0\<rparr>], [\<lparr>fileId = 0, pageNum = 1\<rparr>]],
          concat (map le32 [24, 1, 2, 3, 4, 0, 1]),
          concat (map le32 [24, 1, 2, 3, 4, 0, 1]))"
  by (simp add: fb_eval)

text \<open>
  For comparison, \<open>reserve\<close> of the same two pages: each header carries the index of its
  page.
\<close>

lemma reserve_headers:
  "(case FileBuffer_reserve (scenario_fm 4096) (scenario_fb 4096) 8192 of
      Inl e \<Rightarrow> Inl e
    | Inr (fm, fb) \<Rightarrow>
        Inr (map pageVersions (multiPages fb),
             FileInfo_read (files fm ! 0) (0 * 4096) 28,
             FileInfo_read (files fm ! 0) (1 * 4096) 28))
   = Inr ([[\<lparr>fileId = 0, pageNum = 0\<rparr>], [\<lparr>fileId = 0, pageNum = 1\<rparr>]],
          concat (map le32 [24, 1, 2, 3, 4, 0, 1]),
          concat (map le32 [24, 1, 2, 3, 4, 1, 1]))"
  by (simp add: fb_eval)

text \<open>
  On the buffer of the scenario "append then read across pages" (four pages, two reader
  threads): a read of all 100 bytes to the GPU is refused, to the CPU it completes.
\<close>

theorem C9_read_destination_witness:
  "(case append_scenario of
      Inl e \<Rightarrow> False
    | Inr (fm, fb) \<Rightarrow>
        GPU_LEVEL \<noteq> CPU_LEVEL \<and>
        FileBuffer_read fm fb 100 0 GPU_LEVEL = Inl UnsupportedBufferType \<and>
        buffer_ok fm fb \<and>
        0 div pageDataSize fb + (100 + 0 mod pageDataSize fb + pageDataSize fb - 1) div pageDataSize fb
          \<le> length (multiPages fb) \<and>
        (\<exists>bytes. FileBuffer_read fm fb 100 0 CPU_LEVEL = Inr bytes \<and> length bytes = 100))"
proof (cases append_scenario)
  case (Inl e)
  show ?thesis using append_scenario_state by (simp add: Inl)
next
  case (Inr st')
  obtain fm fb where st': "st' = (fm, fb)" by (cases st')
  have st: "append_scenario = Inr (fm, fb)" using Inr st' by simp
  have ok: "buffer_ok fm fb" and sz: "length (multiPages fb) = 4" "pageDataSize fb = 32"
    using append_scenario_state by (simp_all add: st)
  have rng: "0 div pageDataSize fb
      + (100 + 0 mod pageDataSize fb + pageDataSize fb - 1) div pageDataSize fb
      \<le> length (multiPages fb)"
    by (simp add: sz)
  have lvl: "GPU_LEVEL \<noteq> CPU_LEVEL" by simp
  from C9_read_destination [of GPU_LEVEL fm fb 100 0] lvl ok rng
  show ?thesis by (simp add: st)
qed

section \<open>The reduction of result sets\<close>

subsection \<open>The reference of the tests\<close>

text \<open>
  \<open>mergeResultSets\<close> puts a group into the reduced map when it is in either result set:
  the expectation the tests check the reduction against.
\<close>

lemma rseReducedGroups_union:
  "j < rs_entry_count rse \<Longrightarrow>
   rseReducedGroups rse ! j = (rs1_groups rse ! j \<or> rs2_groups rse ! j)"
  by (simp add: rseReducedGroups_def)

lemma length_rseReducedGroups: "length (rseReducedGroups rse) = rs_entry_count rse"
  by (simp add: rseReducedGroups_def)

lemma std_min_commute: "std_min a b = std_min b a"
proof -
  have "a = b" if "\<not> sint a < sint b" "\<not> sint b < sint a"
    using that by (intro signed_word_eqI) simp
  then show ?thesis
    by (auto simp: std_min_def word_sless_alt)
qed

lemma std_max_commute: "std_max a b = std_max b a"
proof -
  have "a = b" if "\<not> sint a < sint b" "\<not> sint b < sint a"
    using that by (intro signed_word_eqI) simp
  then show ?thesis
    by (auto simp: std_max_def word_sless_alt)
qed

text \<open>The reference of the tests does not depend on the order of the two result sets.\<close>

lemma rse_reduced_row_swap: "rse_reduced_row (rse_swap rse) j = rse_reduced_row rse j"
proof -
  have "rseAggregateKMIN (rse_swap rse) j = rseAggregateKMIN rse j"
    by (simp add: rseAggregateKMIN_def rse_swap_def std_min_commute)
  moreover have "rseAggregateKMAX (rse_swap rse) j = rseAggregateKMAX rse j"
    by (simp add: rseAggregateKMAX_def rse_swap_def std_max_commute)
  moreover have "rseAggregateKAVG (rse_swap rse) j = rseAggregateKAVG rse j"
    by (simp add: rseAggregateKAVG_def rse_swap_def add.commute)
  moreover have "rseAggregateKSUM (rse_swap rse) j = rseAggregateKSUM rse j"
    by (simp add: rseAggregateKSUM_def rse_swap_def add.commute)
  moreover have "rseAggregateKCOUNT (rse_swap rse) j = rseAggregateKCOUNT rse j"
    by (simp add: rseAggregateKCOUNT_def rse_swap_def add.commute)
  moreover have "rs_target_infos (rse_swap rse) = rs_target_infos rse"
    by (simp add: rse_swap_def)
  ultimately show ?thesis
    by (simp add: rse_reduced_row_def split: SQLAgg.split)
qed

lemma rse_swap_reduced:
  "rseReducedGroups (rse_swap rse) = rseReducedGroups rse"
  "rseReducedTable (rse_swap rse) = rseReducedTable rse"
proof -
  have g: "rs1_groups (rse_swap rse) = rs2_groups rse" "rs2_groups (rse_swap rse) = rs1_groups rse"
    "rs_entry_count (rse_swap rse) = rs_entry_count rse"
    by (simp_all add: rse_swap_def)
  show "rseReducedGroups (rse_swap rse) = rseReducedGroups rse"
    by (auto simp: rseReducedGroups_def g)
  have "(\<lambda>j. rs2_groups rse ! j \<or> rs1_groups rse ! j) = (\<lambda>j. rs1_groups rse ! j \<or> rs2_groups rse ! j)"
    by auto
  then show "rseReducedTable (rse_swap rse) = rseReducedTable rse"
    by (simp add: rseReducedTable_def g rse_reduced_row_swap [abs_def])
qed

text \<open>
  The values of the reference: for a group in both result sets the minimum, the maximum
  and the sum of the two values (the average of two groups of one element each being half
  their sum), for a group in one result set its value.
\<close>

lemma div_i64_one: "div_i64 x 1 = x"
  by (simp add: div_i64_def)

lemma rse_both_groups:
  assumes "rs1_groups rse ! j" "rs2_groups rse ! j"
  shows "rseAggregateKMIN rse j = std_min (rs1_values rse ! j) (rs2_values rse ! j)"
    and "rseAggregateKMAX rse j = std_max (rs1_values rse ! j) (rs2_values rse ! j)"
    and "rseAggregateKSUM rse j = rs1_values rse ! j + rs2_values rse ! j"
    and "rseAggregateKCOUNT rse j = rs1_values rse ! j + rs2_values rse ! j"
    and "rseAggregateKAVG rse j = div_i64 (rs1_values rse ! j + rs2_values rse ! j) 2"
  using assms
  by (simp_all add: rseAggregateKMIN_def rseAggregateKMAX_def rseAggregateKSUM_def
      rseAggregateKCOUNT_def rseAggregateKAVG_def div_i64_one)

lemma rse_first_group:
  assumes "rs1_groups rse ! j" "\<not> rs2_groups rse ! j"
  shows "rseAggregateKMIN rse j = rs1_values rse ! j"
    and "rseAggregateKMAX rse j = rs1_values rse ! j"
    and "rseAggregateKSUM rse j = rs1_values rse ! j"
    and "rseAggregateKCOUNT rse j = rs1_values rse ! j"
    and "rseAggregateKAVG rse j = rs1_values rse ! j"
  using assms
  by (simp_all add: rseAggregateKMIN_def rseAggregateKMAX_def rseAggregateKSUM_def
      rseAggregateKCOUNT_def rseAggregateKAVG_def div_i64_one)

lemma rse_second_group:
  assumes "\<not> rs1_groups rse ! j" "rs2_groups rse ! j"
  shows "rseAggregateKMIN rse j = rs2_values rse ! j"
    and "rseAggregateKMAX rse j = rs2_values rse ! j"
    and "rseAggregateKSUM rse j = rs2_values rse ! j"
    and "rseAggregateKCOUNT rse j = rs2_values rse ! j"
    and "rseAggregateKAVG rse j = rs2_values rse ! j"
  using assms
  by (simp_all add: rseAggregateKMIN_def rseAggregateKMAX_def rseAggregateKSUM_def
      rseAggregateKCOUNT_def rseAggregateKAVG_def div_i64_one)

text \<open>The two result sets with disjoint groups: both groups are in the reference.\<close>

lemma disjoint_rse_reduced:
  "rseReducedGroups disjoint_rse = [True, True] \<and>
   rseReducedTable disjoint_rse = [[10, 10], [20, 20]]"
  by (simp add: disjoint_rse_def rseReducedGroups_def rseReducedTable_def rse_reduced_row_def
      rseAggregateKMIN_def rseAggregateKSUM_def upt_conv_Cons)

subsection \<open>The slots of one entry\<close>

lemma slot_count_Cons:
  "slot_count (t # ts) = (if agg_kind t = kAVG then 2 else 1) + slot_count ts"
  by (simp add: slot_count_def)

lemma slot_count_Nil: "slot_count [] = 0"
  by (simp add: slot_count_def)



lemma length_reduce_slots:
  "length ds = slot_count ts \<Longrightarrow> length ss = slot_count ts \<Longrightarrow>
   length (reduce_slots fp ts ds ss) = slot_count ts"
proof (induction fp ts ds ss rule: reduce_slots.induct)
  case (4 fp t ts d ds s ss)
  show ?case
  proof (cases "agg_kind t")
    case kAVG
    with 4 obtain d2 ds' s2 ss' where [simp]: "ds = d2 # ds'" "ss = s2 # ss'"
      by (cases ds; cases ss) (auto simp: slot_count_Cons)
    from 4 kAVG show ?thesis by (simp add: slot_count_Cons)
  qed (use 4 in \<open>simp_all add: slot_count_Cons\<close>)
qed (simp_all add: slot_count_Cons slot_count_Nil)













text \<open>Integer slots commute.\<close>

lemma commuting_integers: "list_all (\<lambda>t. \<not> is_fp t) ts \<Longrightarrow> commuting fp ts xs ys"
  by (induction fp ts xs ys rule: commuting.induct) simp_all


subsection \<open>One entry and its destination\<close>






lemma reduce_entry_key:
  "\<not> keyless_hash d \<Longrightarrow> is_occupied d src \<Longrightarrow>
   is_occupied d dst \<longrightarrow> key dst = key src \<Longrightarrow>
   key (reduce_entry d fp ts dst src) = key src"
  by (auto simp: reduce_entry_def Let_def)

lemma reduce_perfect_hash_nth:
  "i < length a \<Longrightarrow> i < length b \<Longrightarrow>
   reduce_perfect_hash d fp ts a b ! i = reduce_entry d fp ts (a ! i) (b ! i)"
  by (simp add: reduce_perfect_hash_def)

lemma length_reduce_perfect_hash:
  "length (reduce_perfect_hash d fp ts a b) = min (length a) (length b)"
  by (simp add: reduce_perfect_hash_def)



lemma neutral_integers: "list_all (\<lambda>t. \<not> is_fp t) ts \<Longrightarrow> neutral_slots fp ts ss"
  by (induction fp ts ss rule: neutral_slots.induct) simp_all

lemma plain_neutral: "plain_slots fp ts ss \<Longrightarrow> neutral_slots fp ts ss"
  by (induction fp ts ss rule: neutral_slots.induct) (auto split: if_splits)


subsection \<open>Linear probing\<close>






















subsection \<open>The baseline hash\<close>


















subsection \<open>The entries of the reduced set\<close>





lemma entry_eqI: "key (x :: entry) = key y \<Longrightarrow> slots x = slots y \<Longrightarrow> x = y"
  by simp








subsection \<open>Evaluation of the scenarios\<close>

lemma find_entry_numeral:
  "find_entry d tab k (numeral n) i =
     (if \<not> is_occupied d (tab ! i) \<or> key (tab ! i) = k then Some i
      else find_entry d tab k (pred_numeral n) ((i + 1) mod length tab))"
  by (simp add: numeral_eq_Suc)

lemma replicate_numeral: "replicate (numeral n) x = x # replicate (pred_numeral n) x"
  by (simp add: numeral_eq_Suc)

lemmas rs_eval =
  reduce2_def reduce_perfect_hash_def reduce_entry_def is_occupied_def identity_slots_def
  identity_of_def skip_update_def occupied_entries_def occupied_keys_def occupied_count_def
  std_min_def std_max_def word_sless_alt int_target_def combine_def
  T_max_def T_min_def EMPTY_KEY_64_def EMPTY_VALUE_def Let_def upt_conv_Cons
  well_shaped_def slot_count_def distinct_keys_def lookup_key_def all_plain_def
  all_neutral_def all_commuting_def same_keys_def replicate_numeral





lemmas baseline_eval =
  rs_eval baseline_desc_def baseline_targets_def baseline_rs1_def baseline_rs2_def
  baseline_empty_def baseline_hash_def fresh_buffer_def reduce_into_baseline_def
  find_entry_numeral test_targets_def test_entry_def test_rs1_def test_rs2_def

text \<open>
  The result sets of \<open>TEST(Reduce, BaselineHash)\<close>, reduced into a buffer of eight entries:
  the eight groups, each with the values of its input, as the test expects them.
\<close>

lemma test_baseline_reduced:
  "reduce2 baseline_desc 8 baseline_hash no_fp test_targets test_rs1 test_rs2 =
     Some [test_entry 0, test_entry 4, test_entry 5, test_entry 1,
           test_entry 2, test_entry 6, test_entry 7, test_entry 3]"
  by (simp add: baseline_eval)

subsection \<open>The occupied entries of the reduced set\<close>




subsection \<open>The slots of the reduced set\<close>




subsection \<open>The order of the two result sets\<close>





end
